theory Spec2Isabelle
  imports Complex_Main
begin

section \<open>Housing Hub backend: data model\<close>

text \<open>
  A shallow embedding of \<^verbatim>\<open>src/backend/server.js\<close>: the Mongoose collections, the
  WebSocket relay with its connection registry, and the REST handlers that the verified
  properties are about.

  Conventions of the embedding.
  \<^item> A Mongo ObjectId is a natural number. The source compares ids through their string
    forms (\<^verbatim>\<open>String(conversation.student_id) === ws.userId\<close>); the string form of an
    ObjectId determines it, so the comparison is equality of ids. The database hands
    out fresh ids from the counter \<open>next_id\<close>.
  \<^item> Each schema is a record. Fields of different schemas that share a name in the source
    (\<^verbatim>\<open>property_id\<close>, \<^verbatim>\<open>user_id\<close>, \<^verbatim>\<open>_id\<close>) carry
    a prefix naming their schema; the \<^verbatim>\<open>timestamps\<close> are left out, a collection
    being a list in insertion order.
  \<^item> A value that may be \<^verbatim>\<open>undefined\<close> in a request is an \<open>option\<close>.
  \<^item> Libraries whose code is not part of the repository (jsonwebtoken, bcryptjs,
    cloudinary, the hosted text model) are parameters, gathered in the record \<open>env\<close>.
    Mongoose is modelled by what the schemas of the source declare: required paths,
    enums, bounds, setters and unique indexes.
  \<^item> A handler runs from its first statement to its answer as one step: the database
    answers every call, and no other handler runs between two of its \<^verbatim>\<open>await\<close>s.
  \<^item> A string is the list of bytes of its UTF-8 encoding; \<open>js_length\<close> gives the number
    of UTF-16 code units of the text, which is what \<^verbatim>\<open>.length\<close> and the
    \<^verbatim>\<open>maxLength\<close> of a schema count. A JSON number is a rational, the value of the
    double that the parser made of it.
\<close>

type_synonym oid = nat

record user =
  u_id :: oid
  username :: string
  email :: string
  password :: string
  user_type :: string
  profilePictureUrl :: string
  bio :: string
  isVerified :: bool
  verificationStatus :: string
  verificationDocument :: string

text \<open>
  PropertySchema. \<^verbatim>\<open>landlord_id\<close>, \<^verbatim>\<open>title\<close>, \<^verbatim>\<open>address\<close>,
  \<^verbatim>\<open>city\<close>, \<^verbatim>\<open>price\<close> and \<^verbatim>\<open>property_type\<close> are required; the other
  paths may be unset.
\<close>

record property =
  p_id :: oid
  landlord_id :: oid
  title :: string
  description :: "string option"
  address :: string
  city :: string
  price :: rat
  property_type :: string
  bedrooms :: "rat option"
  bathrooms :: "rat option"
  amenities :: "string option"
  image_url :: "string option"
  images :: "string list"
  lat :: "rat option"
  lng :: "rat option"
  virtual_tour_url :: string

record favorite =
  f_id :: oid
  f_user_id :: oid
  f_property_id :: oid

record conversation =
  c_id :: oid
  c_property_id :: oid
  c_student_id :: oid
  c_landlord_id :: oid

record message =
  m_id :: oid
  m_conversation_id :: oid
  m_sender_id :: oid
  m_content :: string

record property_view =
  v_id :: oid
  v_property_id :: oid

text \<open>
  NotificationSchema. The \<^verbatim>\<open>link\<close> of a notification is the text
  \<^verbatim>\<open>/properties/\<close> followed by a property id; the record keeps that id.
\<close>

record notification =
  n_id :: oid
  n_recipient_id :: oid
  n_sender_id :: "oid option"
  n_message :: string
  n_link :: "oid option"
  isRead :: bool

record review =
  r_id :: oid
  r_property_id :: oid
  r_user_id :: oid
  rating :: rat
  comment :: string

record db =
  users :: "user list"
  properties :: "property list"
  favorites :: "favorite list"
  conversations :: "conversation list"
  messages :: "message list"
  property_views :: "property_view list"
  notifications :: "notification list"
  reviews :: "review list"
  next_id :: oid

text \<open>The payload of a signed token, as \<^verbatim>\<open>jwt.sign\<close> is given it at signup and login.\<close>

record jwt_user =
  userId :: oid
  jwt_username :: string
  userType :: string

text \<open>
  The libraries: \<^verbatim>\<open>jwt.verify\<close> and \<^verbatim>\<open>jwt.sign\<close> under the server's secret,
  \<^verbatim>\<open>bcrypt.hash\<close> (for the salt it drew) and \<^verbatim>\<open>bcrypt.compare\<close>, the upload of
  one file buffer to the image host, which gives the file's URL or fails, whether
  \<^verbatim>\<open>GEMINI_API_KEY\<close> is set, and the hosted text model: asked a question about a
  property, the call fails, returns no text, or returns an answer.
\<close>

datatype ai_result = AiFailed | AiNoText | AiText string

record env =
  jwt_verify :: "string \<Rightarrow> jwt_user option"
  jwt_sign :: "jwt_user \<Rightarrow> string"
  bcrypt_hash :: "string \<Rightarrow> string"
  bcrypt_compare :: "string \<Rightarrow> string \<Rightarrow> bool"
  cloud_upload :: "string \<Rightarrow> string option"
  gemini_api_key :: bool
  generate :: "property \<Rightarrow> string \<Rightarrow> ai_result"

section \<open>The WebSocket relay\<close>

text \<open>
  A socket object of the \<^verbatim>\<open>ws\<close> library: its \<^verbatim>\<open>readyState\<close> (0 connecting, 1 open,
  2 closing, 3 closed), the two properties the handler adds to it on authentication, and
  the frames the server has sent on it. \<^verbatim>\<open>clients\<close> is the process-wide
  \<^verbatim>\<open>Map\<close> from user id to socket object; it holds references, so the sockets live in
  a store indexed by connection number.
\<close>

type_synonym conn = nat

datatype out_frame = NewMessage message | NewNotification notification

record socket =
  readyState :: nat
  ws_userId :: "oid option"
  ws_userType :: "string option"
  sent :: "out_frame list"

definition OPEN :: nat where
  "OPEN = 1"

text \<open>
  The callback that \<^verbatim>\<open>setTimeout\<close> schedules for the automated reply, with the
  variables its closure captured.
\<close>

record bot_task =
  t_conversation_id :: oid
  t_landlord_id :: oid
  t_targets :: "oid list"

record world =
  store :: db
  clients :: "oid \<rightharpoonup> conn"
  sockets :: "conn \<Rightarrow> socket"
  timers :: "bot_task list"

text \<open>
  A received frame after \<^verbatim>\<open>JSON.parse\<close>. The handler reads \<^verbatim>\<open>data.type\<close>,
  \<^verbatim>\<open>data.token\<close> and \<^verbatim>\<open>data.payload\<close>; each may be missing. A frame that is not
  JSON is \<open>None\<close>: \<^verbatim>\<open>JSON.parse\<close> throws and the handler's \<^verbatim>\<open>catch\<close> logs it.
\<close>

record chat_payload =
  conversation_id :: "oid option"
  content :: "string option"

record ws_data =
  data_type :: "string option"
  token :: "string option"
  payload :: "chat_payload option"

text \<open>JavaScript truthiness of a string that may be undefined.\<close>

fun truthy :: "string option \<Rightarrow> bool" where
  "truthy None = False"
| "truthy (Some s) = (s \<noteq> [])"

text \<open>
  \<^verbatim>\<open>String.prototype.length\<close>: the number of UTF-16 code units. In the UTF-8
  encoding every character starts with one byte that is not a continuation byte
  (\<^verbatim>\<open>10xxxxxx\<close>), and the characters of four bytes, whose first byte is
  \<^verbatim>\<open>11110xxx\<close>, are those that take two code units.
\<close>

definition js_length :: "string \<Rightarrow> nat" where
  "js_length s =
     length (filter (\<lambda>c. of_char c < (0x80::nat) \<or> (0xC0::nat) \<le> of_char c) s)
     + length (filter (\<lambda>c. (0xF0::nat) \<le> of_char c) s)"

text \<open>\<^verbatim>\<open>String.prototype.toLowerCase\<close> and \<^verbatim>\<open>includes\<close>, on ASCII letters.\<close>

definition toLowerChar :: "char \<Rightarrow> char" where
  "toLowerChar c =
     (if (65::nat) \<le> of_char c \<and> of_char c \<le> (90::nat)
      then char_of (of_char c + (32::nat)) else c)"

definition toLowerCase :: "string \<Rightarrow> string" where
  "toLowerCase s = map toLowerChar s"

fun str_includes :: "string \<Rightarrow> string \<Rightarrow> bool" where
  "str_includes [] t = (t = [])"
| "str_includes (x # xs) t = (if take (length t) (x # xs) = t then True else str_includes xs t)"

subsection \<open>Store operations used by the relay\<close>

text \<open>\<^verbatim>\<open>Conversation.findById\<close>: the document with that id, or null.\<close>

definition findConversationById :: "oid option \<Rightarrow> db \<Rightarrow> conversation option" where
  "findConversationById i d =
     (case i of None \<Rightarrow> None | Some k \<Rightarrow> find (\<lambda>c. c_id c = k) (conversations d))"

text \<open>
  \<^verbatim>\<open>new Message({...}).save()\<close>. MessageSchema declares all three fields
  \<^verbatim>\<open>required\<close>; for a String that refuses undefined and the empty string, and the save
  rejects with a validation error. Otherwise the document is inserted under a fresh id.
\<close>

datatype db_error = ValidationError | DuplicateKey

definition saveMessage :: "oid \<Rightarrow> oid \<Rightarrow> string option \<Rightarrow> db \<Rightarrow> db_error + (message \<times> db)" where
  "saveMessage conv_id sender c d =
     (case c of
        None \<Rightarrow> Inl ValidationError
      | Some s \<Rightarrow>
          if s = [] then Inl ValidationError
          else
            (let m = \<lparr>m_id = next_id d, m_conversation_id = conv_id,
                      m_sender_id = sender, m_content = s\<rparr>
             in Inr (m, d\<lparr>messages := messages d @ [m], next_id := Suc (next_id d)\<rparr>)))"

subsection \<open>Pushing a frame to the registered sockets\<close>

text \<open>
  The body of the \<^verbatim>\<open>forEach\<close>: look the id up in \<^verbatim>\<open>clients\<close> and send when the
  socket is there and open.
\<close>

definition pushTo :: "out_frame \<Rightarrow> oid \<Rightarrow> world \<Rightarrow> world" where
  "pushTo fr i w =
     (case clients w i of
        None \<Rightarrow> w
      | Some k \<Rightarrow>
          if readyState (sockets w k) = OPEN
          then w\<lparr>sockets := (sockets w)(k := (sockets w k)\<lparr>sent := sent (sockets w k) @ [fr]\<rparr>)\<rparr>
          else w)"

fun forEach :: "oid list \<Rightarrow> (oid \<Rightarrow> world \<Rightarrow> world) \<Rightarrow> world \<Rightarrow> world" where
  "forEach [] f w = w"
| "forEach (i # is) f w = forEach is f (f i w)"

text \<open>
  The recipient of a chat message:
  \<^verbatim>\<open>String(conversation.student_id) === ws.userId ? String(conversation.landlord_id) : String(conversation.student_id)\<close>.
\<close>

definition recipientId :: "conversation \<Rightarrow> oid \<Rightarrow> oid" where
  "recipientId conv sender =
     (if c_student_id conv = sender then c_landlord_id conv else c_student_id conv)"

subsection \<open>The handlers of a connection\<close>

text \<open>\<^verbatim>\<open>ws.close()\<close> starts the closing handshake; the close event comes later.\<close>

definition ws_close :: "conn \<Rightarrow> world \<Rightarrow> world" where
  "ws_close ws w = w\<lparr>sockets := (sockets w)(ws := (sockets w ws)\<lparr>readyState := 2\<rparr>)\<rparr>"

definition bot_reply_text :: string where
  "bot_reply_text = ''This is an automated reply. The landlord will get back to you soon. For quick questions about the property, try the 'Ask AI' button!''"

text \<open>The branch of the message handler for \<^verbatim>\<open>data.type === 'auth' && data.token\<close>.\<close>

definition on_auth :: "env \<Rightarrow> conn \<Rightarrow> string \<Rightarrow> world \<Rightarrow> world" where
  "on_auth e ws tok w =
     (case jwt_verify e tok of
        Some u \<Rightarrow>
          w\<lparr>clients := (clients w)(userId u \<mapsto> ws),
            sockets := (sockets w)(ws := (sockets w ws)
                         \<lparr>ws_userId := Some (userId u), ws_userType := Some (userType u)\<rparr>)\<rparr>
      | None \<Rightarrow> ws_close ws w)"

text \<open>
  The branch for \<^verbatim>\<open>data.type === 'message' && ws.userId\<close>. Every exception (a missing
  payload, a rejected save) ends in the handler's \<^verbatim>\<open>catch\<close>, which only logs.
\<close>

definition on_chat :: "conn \<Rightarrow> oid \<Rightarrow> chat_payload option \<Rightarrow> world \<Rightarrow> world" where
  "on_chat ws sender pl w =
     (case pl of
        None \<Rightarrow> w
      | Some p \<Rightarrow>
          (case findConversationById (conversation_id p) (store w) of
             None \<Rightarrow> w
           | Some conv \<Rightarrow>
               (case saveMessage (the (conversation_id p)) sender (content p) (store w) of
                  Inl err \<Rightarrow> w
                | Inr (newMessage, d) \<Rightarrow>
                    (let targets = [sender, recipientId conv sender];
                         w1 = forEach targets (pushTo (NewMessage newMessage)) (w\<lparr>store := d\<rparr>)
                     in if ws_userType (sockets w ws) = Some ''student''
                           \<and> str_includes (toLowerCase (the (content p))) ''help''
                        then w1\<lparr>timers := timers w1 @
                               [\<lparr>t_conversation_id = the (conversation_id p),
                                 t_landlord_id = c_landlord_id conv,
                                 t_targets = targets\<rparr>]\<rparr>
                        else w1))))"

definition on_message :: "env \<Rightarrow> conn \<Rightarrow> ws_data option \<Rightarrow> world \<Rightarrow> world" where
  "on_message e ws raw w =
     (case raw of
        None \<Rightarrow> w
      | Some data \<Rightarrow>
          if data_type data = Some ''auth'' \<and> truthy (token data)
          then on_auth e ws (the (token data)) w
          else if data_type data = Some ''message'' \<and> ws_userId (sockets w ws) \<noteq> None
          then on_chat ws (the (ws_userId (sockets w ws))) (payload data) w
          else w)"

text \<open>
  The close event of a socket: the library has set \<^verbatim>\<open>readyState\<close> to closed, and the
  handler runs \<^verbatim>\<open>if (ws.userId) { clients.delete(ws.userId); }\<close>.
\<close>

definition on_close :: "conn \<Rightarrow> world \<Rightarrow> world" where
  "on_close ws w =
     (let w1 = w\<lparr>sockets := (sockets w)(ws := (sockets w ws)\<lparr>readyState := 3\<rparr>)\<rparr>
      in case ws_userId (sockets w ws) of
           None \<Rightarrow> w1
         | Some u \<Rightarrow> w1\<lparr>clients := (clients w1)(u := None)\<rparr>)"

text \<open>The timer of an automated reply fires: the bot message is saved and pushed.\<close>

definition on_timer :: "bot_task \<Rightarrow> world \<Rightarrow> world" where
  "on_timer t w =
     (case saveMessage (t_conversation_id t) (t_landlord_id t) (Some bot_reply_text) (store w) of
        Inl err \<Rightarrow> w
      | Inr (botMessage, d) \<Rightarrow>
          forEach (t_targets t) (pushTo (NewMessage botMessage)) (w\<lparr>store := d\<rparr>))"

text \<open>An authentication frame carrying a token, as the client sends it on open.\<close>

definition auth_frame :: "string \<Rightarrow> ws_data option" where
  "auth_frame tok = Some \<lparr>data_type = Some ''auth'', token = Some tok, payload = None\<rparr>"

definition chat_frame :: "oid \<Rightarrow> string \<Rightarrow> ws_data option" where
  "chat_frame cid txt =
     Some \<lparr>data_type = Some ''message'', token = None,
           payload = Some \<lparr>conversation_id = Some cid, content = Some txt\<rparr>\<rparr>"

section \<open>The REST handlers\<close>

text \<open>
  A response is the status code and the JSON body. \<open>JMsg\<close> is the body
  \<^verbatim>\<open>{ message: ... }\<close>; the other constructors carry the documents a handler
  returns. \<^verbatim>\<open>res.sendStatus\<close> sends no JSON body (\<open>JEmpty\<close>).
\<close>

datatype json =
    JEmpty
  | JMsg string
  | JProperty "property option"
  | JFavorite favorite
  | JReview "(review \<times> (string \<times> string) option) option"
  | JUser string "user option"
  | JSession string user
  | JUsername string string string
  | JPicture string string
  | JBio string "string option"
  | JConversationId oid

record response =
  status :: nat
  body :: json

definition reply :: "nat \<Rightarrow> json \<Rightarrow> response" where
  "reply code j = \<lparr>status = code, body = j\<rparr>"

subsection \<open>Authentication middleware\<close>

text \<open>\<^verbatim>\<open>String.prototype.split\<close> on a one-character separator.\<close>

fun js_split :: "char \<Rightarrow> string \<Rightarrow> string list" where
  "js_split sep [] = [[]]"
| "js_split sep (c # cs) =
     (if c = sep then [] # js_split sep cs
      else (case js_split sep cs of [] \<Rightarrow> [[c]] | x # xs \<Rightarrow> (c # x) # xs))"

text \<open>
  \<^verbatim>\<open>authHeader && authHeader.split(' ')[1]\<close>: undefined without the header or
  without a second part; the empty header is falsy and is itself the value.
\<close>

definition bearer_token :: "string option \<Rightarrow> string option" where
  "bearer_token authHeader =
     (case authHeader of
        None \<Rightarrow> None
      | Some h \<Rightarrow>
          if h = [] then Some []
          else (case js_split (CHR '' '') h of
                  a # b # rest \<Rightarrow> Some b
                | _ \<Rightarrow> None))"

text \<open>
  \<^verbatim>\<open>authenticateToken\<close>: 401 without a token, 403 when the token does not verify,
  otherwise the next handler runs with \<^verbatim>\<open>req.user\<close> set to the token's payload.
\<close>

definition authenticateToken ::
  "env \<Rightarrow> string option \<Rightarrow> (jwt_user \<Rightarrow> 's \<Rightarrow> response \<times> 's) \<Rightarrow> 's \<Rightarrow> response \<times> 's" where
  "authenticateToken e authHeader next_handler s =
     (case bearer_token authHeader of
        None \<Rightarrow> (reply 401 JEmpty, s)
      | Some tok \<Rightarrow>
          (case jwt_verify e tok of
             None \<Rightarrow> (reply 403 JEmpty, s)
           | Some u \<Rightarrow> next_handler u s))"

subsection \<open>Queries\<close>

text \<open>
  One key of a filter of \<^verbatim>\<open>findOne\<close> or \<^verbatim>\<open>findOneAndUpdate\<close>. A value that is
  undefined reaches the database as null, and null matches only a document in which
  the path is null or missing. The paths that the handlers filter on (\<^verbatim>\<open>_id\<close>,
  \<^verbatim>\<open>email\<close>, \<^verbatim>\<open>username\<close>, \<^verbatim>\<open>property_id\<close>) are set in every stored
  document, so such a key matches none.
\<close>

definition matches :: "'a option \<Rightarrow> 'a \<Rightarrow> bool" where
  "matches wanted actual = (case wanted of None \<Rightarrow> False | Some v \<Rightarrow> actual = v)"

definition findUserById :: "oid \<Rightarrow> db \<Rightarrow> user option" where
  "findUserById i d = find (\<lambda>u. u_id u = i) (users d)"

definition findPropertyById :: "oid \<Rightarrow> db \<Rightarrow> property option" where
  "findPropertyById i d = find (\<lambda>p. p_id p = i) (properties d)"

text \<open>
  \<^verbatim>\<open>findByIdAndUpdate\<close> and \<^verbatim>\<open>findByIdAndDelete\<close> act on the first document the
  filter matches.
\<close>

fun update_first :: "('a \<Rightarrow> bool) \<Rightarrow> ('a \<Rightarrow> 'a) \<Rightarrow> 'a list \<Rightarrow> 'a list" where
  "update_first P f [] = []"
| "update_first P f (x # xs) = (if P x then f x # xs else x # update_first P f xs)"

fun delete_first :: "('a \<Rightarrow> bool) \<Rightarrow> 'a list \<Rightarrow> 'a list" where
  "delete_first P [] = []"
| "delete_first P (x # xs) = (if P x then xs else x # delete_first P xs)"

subsection \<open>Favorites\<close>

text \<open>
  \<^verbatim>\<open>new Favorite({ user_id, property_id }).save()\<close>. Both paths are required, and
  \<^verbatim>\<open>FavoriteSchema.index({ user_id: 1, property_id: 1 }, { unique: true })\<close> makes the
  insert of a second document for the same pair fail with the duplicate-key error
  (code 11000).
\<close>

definition saveFavorite :: "oid \<Rightarrow> oid option \<Rightarrow> db \<Rightarrow> db_error + (favorite \<times> db)" where
  "saveFavorite uid pid d =
     (case pid of
        None \<Rightarrow> Inl ValidationError
      | Some p \<Rightarrow>
          if list_ex (\<lambda>f. f_user_id f = uid \<and> f_property_id f = p) (favorites d)
          then Inl DuplicateKey
          else
            (let f = \<lparr>f_id = next_id d, f_user_id = uid, f_property_id = p\<rparr>
             in Inr (f, d\<lparr>favorites := favorites d @ [f], next_id := Suc (next_id d)\<rparr>)))"

definition saveNotification :: "oid \<Rightarrow> oid \<Rightarrow> string \<Rightarrow> oid \<Rightarrow> db \<Rightarrow> notification \<times> db" where
  "saveNotification recipient sender msg link_pid d =
     (let n = \<lparr>n_id = next_id d, n_recipient_id = recipient, n_sender_id = Some sender,
               n_message = msg, n_link = Some link_pid, isRead = False\<rparr>
      in (n, d\<lparr>notifications := notifications d @ [n], next_id := Suc (next_id d)\<rparr>))"

definition favorite_text :: "string \<Rightarrow> string" where
  "favorite_text t = ''Your property '' @ [CHR 0x27] @ t @ [CHR 0x27] @ '' has a new favorite!''"

text \<open>
  \<^verbatim>\<open>POST /api/favorites\<close>. Whatever the save throws, the handler's \<^verbatim>\<open>catch\<close>
  answers 500 with the one message.
\<close>

definition post_favorites :: "jwt_user \<Rightarrow> oid option \<Rightarrow> world \<Rightarrow> response \<times> world" where
  "post_favorites u property_id w =
     (case saveFavorite (userId u) property_id (store w) of
        Inl err \<Rightarrow> (reply 500 (JMsg ''Error adding favorite''), w)
      | Inr (fav, d1) \<Rightarrow>
          (case findPropertyById (f_property_id fav) d1 of
             None \<Rightarrow> (reply 201 (JFavorite fav), w\<lparr>store := d1\<rparr>)
           | Some prop \<Rightarrow>
               if landlord_id prop \<noteq> userId u
               then
                 (case saveNotification (landlord_id prop) (userId u)
                         (favorite_text (title prop)) (f_property_id fav) d1 of
                    (n, d2) \<Rightarrow>
                      (reply 201 (JFavorite fav),
                       pushTo (NewNotification n) (landlord_id prop) (w\<lparr>store := d2\<rparr>)))
               else (reply 201 (JFavorite fav), w\<lparr>store := d1\<rparr>)))"

subsection \<open>Reviews\<close>

text \<open>
  \<^verbatim>\<open>new Review({...}).save()\<close>. The document is validated first (\<^verbatim>\<open>rating\<close>
  between 1 and 5, \<^verbatim>\<open>comment\<close> present and with a \<^verbatim>\<open>length\<close> of at most 1000);
  then the insert meets the unique index on \<^verbatim>\<open>(property_id, user_id)\<close>.
\<close>

definition saveReview :: "oid \<Rightarrow> oid \<Rightarrow> rat \<Rightarrow> string \<Rightarrow> db \<Rightarrow> db_error + (review \<times> db)" where
  "saveReview pid uid rt cm d =
     (if rt < 1 then Inl ValidationError
      else if 5 < rt then Inl ValidationError
      else if cm = [] then Inl ValidationError
      else if 1000 < js_length cm then Inl ValidationError
      else if list_ex (\<lambda>r. r_property_id r = pid \<and> r_user_id r = uid) (reviews d)
      then Inl DuplicateKey
      else
        (let r = \<lparr>r_id = next_id d, r_property_id = pid, r_user_id = uid,
                  rating = rt, comment = cm\<rparr>
         in Inr (r, d\<lparr>reviews := reviews d @ [r], next_id := Suc (next_id d)\<rparr>)))"

text \<open>
  \<^verbatim>\<open>Review.findById(id).populate('user_id', 'username profilePictureUrl')\<close>: the review
  with the two fields of its author, or with null when the author is gone.
\<close>

definition findReviewPopulated :: "oid \<Rightarrow> db \<Rightarrow> (review \<times> (string \<times> string) option) option" where
  "findReviewPopulated i d =
     (case find (\<lambda>r. r_id r = i) (reviews d) of
        None \<Rightarrow> None
      | Some r \<Rightarrow>
          Some (r, case findUserById (r_user_id r) d of
                     None \<Rightarrow> None
                   | Some a \<Rightarrow> Some (username a, profilePictureUrl a)))"

text \<open>\<^verbatim>\<open>!rating\<close> for a number that may be undefined.\<close>

fun truthy_num :: "rat option \<Rightarrow> bool" where
  "truthy_num None = False"
| "truthy_num (Some n) = (n \<noteq> 0)"

text \<open>\<^verbatim>\<open>POST /api/properties/:propertyId/reviews\<close>.\<close>

definition post_review ::
  "jwt_user \<Rightarrow> oid \<Rightarrow> rat option \<Rightarrow> string option \<Rightarrow> db \<Rightarrow> response \<times> db" where
  "post_review u propertyId rt cm d =
     (if userType u \<noteq> ''student''
      then (reply 403 (JMsg ''Only students can leave reviews.''), d)
      else if \<not> (truthy_num rt \<and> truthy cm)
      then (reply 400 (JMsg ''Rating and comment are required.''), d)
      else
        (case saveReview propertyId (userId u) (the rt) (the cm) d of
           Inl err \<Rightarrow>
             if err = DuplicateKey
             then (reply 409 (JMsg ''You have already reviewed this property.''), d)
             else (reply 500 (JMsg ''Server error posting review.''), d)
         | Inr (newReview, d1) \<Rightarrow>
             (reply 201 (JReview (findReviewPopulated (r_id newReview) d1)), d1)))"

subsection \<open>Properties\<close>

text \<open>
  The fields of \<^verbatim>\<open>req.body\<close> that PropertySchema knows; Mongoose drops the others.
  Each may be missing.
\<close>

record property_body =
  b_landlord_id :: "oid option"
  b_title :: "string option"
  b_description :: "string option"
  b_address :: "string option"
  b_city :: "string option"
  b_price :: "rat option"
  b_property_type :: "string option"
  b_bedrooms :: "rat option"
  b_bathrooms :: "rat option"
  b_amenities :: "string option"
  b_image_url :: "string option"
  b_images :: "string list option"
  b_lat :: "rat option"
  b_lng :: "rat option"
  b_virtual_tour_url :: "string option"

text \<open>A path keeps its value unless the update names it.\<close>

definition assign :: "'a option \<Rightarrow> 'a \<Rightarrow> 'a" where
  "assign new old = (case new of None \<Rightarrow> old | Some x \<Rightarrow> x)"

definition assign_opt :: "'a option \<Rightarrow> 'a option \<Rightarrow> 'a option" where
  "assign_opt new old = (case new of None \<Rightarrow> old | Some x \<Rightarrow> Some x)"

text \<open>
  The update \<^verbatim>\<open>{ ...req.body }\<close> of \<^verbatim>\<open>findByIdAndUpdate\<close>: every path the body
  names is set, \<^verbatim>\<open>landlord_id\<close> included.
\<close>

definition apply_update :: "property_body \<Rightarrow> property \<Rightarrow> property" where
  "apply_update b p =
     p\<lparr>landlord_id := assign (b_landlord_id b) (landlord_id p),
       title := assign (b_title b) (title p),
       description := assign_opt (b_description b) (description p),
       address := assign (b_address b) (address p),
       city := assign (b_city b) (city p),
       price := assign (b_price b) (price p),
       property_type := assign (b_property_type b) (property_type p),
       bedrooms := assign_opt (b_bedrooms b) (bedrooms p),
       bathrooms := assign_opt (b_bathrooms b) (bathrooms p),
       amenities := assign_opt (b_amenities b) (amenities p),
       image_url := assign_opt (b_image_url b) (image_url p),
       images := assign (b_images b) (images p),
       lat := assign_opt (b_lat b) (lat p),
       lng := assign_opt (b_lng b) (lng p),
       virtual_tour_url := assign (b_virtual_tour_url b) (virtual_tour_url p)\<rparr>"

text \<open>\<^verbatim>\<open>PUT /api/properties/:id\<close>, after \<^verbatim>\<open>authenticateToken\<close>.\<close>

definition put_property :: "jwt_user \<Rightarrow> oid \<Rightarrow> property_body \<Rightarrow> db \<Rightarrow> response \<times> db" where
  "put_property u i b d =
     (case findPropertyById i d of
        None \<Rightarrow> (reply 404 (JMsg ''Property not found''), d)
      | Some p \<Rightarrow>
          if landlord_id p \<noteq> userId u
          then (reply 403 (JMsg ''User not authorized''), d)
          else
            (let d1 = d\<lparr>properties := update_first (\<lambda>q. p_id q = i) (apply_update b) (properties d)\<rparr>
             in (reply 200 (JProperty (findPropertyById i d1)), d1)))"

text \<open>\<^verbatim>\<open>DELETE /api/properties/:id\<close>, after \<^verbatim>\<open>authenticateToken\<close>.\<close>

definition delete_property :: "jwt_user \<Rightarrow> oid \<Rightarrow> db \<Rightarrow> response \<times> db" where
  "delete_property u i d =
     (case findPropertyById i d of
        None \<Rightarrow> (reply 404 (JMsg ''Property not found''), d)
      | Some p \<Rightarrow>
          if landlord_id p \<noteq> userId u
          then (reply 403 (JMsg ''User not authorized''), d)
          else (reply 200 (JMsg ''Property removed''),
                d\<lparr>properties := delete_first (\<lambda>q. p_id q = i) (properties d)\<rparr>))"

definition route_put_property ::
  "env \<Rightarrow> string option \<Rightarrow> oid \<Rightarrow> property_body \<Rightarrow> db \<Rightarrow> response \<times> db" where
  "route_put_property e authHeader i b d =
     authenticateToken e authHeader (\<lambda>u. put_property u i b) d"

definition route_delete_property :: "env \<Rightarrow> string option \<Rightarrow> oid \<Rightarrow> db \<Rightarrow> response \<times> db" where
  "route_delete_property e authHeader i d =
     authenticateToken e authHeader (\<lambda>u. delete_property u i) d"

subsection \<open>Listing a property\<close>

text \<open>
  Reading a property of a document. A Mongoose document answers for the paths of its
  schema and is \<^verbatim>\<open>undefined\<close> at every other name; UserSchema's paths are
  \<^verbatim>\<open>username\<close>, \<^verbatim>\<open>email\<close>, \<^verbatim>\<open>password\<close>, \<^verbatim>\<open>user_type\<close>,
  \<^verbatim>\<open>profilePictureUrl\<close>, \<^verbatim>\<open>bio\<close>, \<^verbatim>\<open>isVerified\<close>,
  \<^verbatim>\<open>verificationStatus\<close> and \<^verbatim>\<open>verificationDocument\<close>, besides \<^verbatim>\<open>_id\<close>.
\<close>

datatype jsval = JUndefined | JBool bool | JString string | JId oid

definition user_prop :: "user \<Rightarrow> string \<Rightarrow> jsval" where
  "user_prop usr name =
     (if name = ''_id'' then JId (u_id usr)
      else if name = ''username'' then JString (username usr)
      else if name = ''email'' then JString (email usr)
      else if name = ''password'' then JString (password usr)
      else if name = ''user_type'' then JString (user_type usr)
      else if name = ''profilePictureUrl'' then JString (profilePictureUrl usr)
      else if name = ''bio'' then JString (bio usr)
      else if name = ''isVerified'' then JBool (isVerified usr)
      else if name = ''verificationStatus'' then JString (verificationStatus usr)
      else if name = ''verificationDocument'' then JString (verificationDocument usr)
      else JUndefined)"

fun js_truthy :: "jsval \<Rightarrow> bool" where
  "js_truthy JUndefined = False"
| "js_truthy (JBool b) = b"
| "js_truthy (JString s) = (s \<noteq> [])"
| "js_truthy (JId i) = True"

text \<open>
  The loop over \<^verbatim>\<open>req.files\<close>: each buffer is uploaded in turn, and the first
  failure rejects, which aborts the request.
\<close>

fun upload_all :: "env \<Rightarrow> string list \<Rightarrow> string list option" where
  "upload_all e [] = Some []"
| "upload_all e (f # fs) =
     (case cloud_upload e f of
        None \<Rightarrow> None
      | Some url \<Rightarrow> (case upload_all e fs of None \<Rightarrow> None | Some urls \<Rightarrow> Some (url # urls)))"

text \<open>\<^verbatim>\<open>req.body.lat || null\<close>: a coordinate that is missing or 0 becomes null.\<close>

definition or_null :: "rat option \<Rightarrow> rat option" where
  "or_null x = (if x = Some 0 then None else x)"

text \<open>
  \<^verbatim>\<open>new Property({...}).save()\<close>: the required paths must be present (a String
  non-empty) and \<^verbatim>\<open>property_type\<close> one of the enum's values.
\<close>

definition saveProperty ::
  "property_body \<Rightarrow> oid \<Rightarrow> string list \<Rightarrow> db \<Rightarrow> db_error + (property \<times> db)" where
  "saveProperty b owner imageUrls d =
     (if \<not> (truthy (b_title b) \<and> truthy (b_address b) \<and> truthy (b_city b))
      then Inl ValidationError
      else if b_price b = None then Inl ValidationError
      else if b_property_type b \<notin> {Some ''apartment'', Some ''house'', Some ''room''}
      then Inl ValidationError
      else
        (let p = \<lparr>p_id = next_id d,
                  landlord_id = owner,
                  title = the (b_title b),
                  description = b_description b,
                  address = the (b_address b),
                  city = the (b_city b),
                  price = the (b_price b),
                  property_type = the (b_property_type b),
                  bedrooms = b_bedrooms b,
                  bathrooms = b_bathrooms b,
                  amenities = b_amenities b,
                  image_url = Some (case imageUrls of [] \<Rightarrow> [] | x # xs \<Rightarrow> x),
                  images = imageUrls,
                  lat = or_null (b_lat b),
                  lng = or_null (b_lng b),
                  virtual_tour_url = (case b_virtual_tour_url b of None \<Rightarrow> [] | Some s \<Rightarrow> s)\<rparr>
         in Inr (p, d\<lparr>properties := properties d @ [p], next_id := Suc (next_id d)\<rparr>)))"

text \<open>The message of the gate; it starts with the no-entry sign U+26D4, three bytes in UTF-8.\<close>

definition access_denied_text :: string where
  "access_denied_text = [CHR 0xE2, CHR 0x9B, CHR 0x94] @
     '' Access Denied: You must be a Verified Landlord to post properties. Please upload your ID in the Profile section.''"

text \<open>
  \<^verbatim>\<open>POST /api/properties\<close>, after \<^verbatim>\<open>authenticateToken\<close> and the multipart parser.
  The gate reads \<^verbatim>\<open>user.userType\<close> and \<^verbatim>\<open>user.isVerified\<close> of the document that
  \<^verbatim>\<open>User.findById\<close> returned; of a null document the read throws, and the
  \<^verbatim>\<open>catch\<close> answers 500.
\<close>

definition post_properties ::
  "env \<Rightarrow> jwt_user \<Rightarrow> property_body \<Rightarrow> string list option \<Rightarrow> db \<Rightarrow> response \<times> db" where
  "post_properties e u b files d =
     (case findUserById (userId u) d of
        None \<Rightarrow> (reply 500 (JMsg ''Server error adding property''), d)
      | Some usr \<Rightarrow>
          if user_prop usr ''userType'' = JString ''landlord'' \<and> \<not> js_truthy (user_prop usr ''isVerified'')
          then (reply 403 (JMsg access_denied_text), d)
          else
            (case upload_all e (case files of None \<Rightarrow> [] | Some fs \<Rightarrow> fs) of
               None \<Rightarrow> (reply 500 (JMsg ''Server error adding property''), d)
             | Some imageUrls \<Rightarrow>
                 (case saveProperty b (userId u) imageUrls d of
                    Inl err \<Rightarrow> (reply 500 (JMsg ''Server error adding property''), d)
                  | Inr (newProperty, d1) \<Rightarrow> (reply 201 (JProperty (Some newProperty)), d1))))"

subsection \<open>Accounts\<close>

text \<open>
  UserSchema trims \<^verbatim>\<open>username\<close> and lowercases \<^verbatim>\<open>email\<close>; Mongoose applies both
  setters to a value that is stored and to a value that a filter compares with.
\<close>

definition is_space :: "char \<Rightarrow> bool" where
  "is_space c = (c \<in> {CHR '' '', CHR 0x09, CHR 0x0A, CHR 0x0B, CHR 0x0C, CHR 0x0D})"

definition trim :: "string \<Rightarrow> string" where
  "trim s = rev (dropWhile is_space (rev (dropWhile is_space s)))"

definition findUserByEmail :: "string option \<Rightarrow> db \<Rightarrow> user option" where
  "findUserByEmail m d = find (\<lambda>u. matches (map_option toLowerCase m) (email u)) (users d)"

definition findUserByUsername :: "string option \<Rightarrow> db \<Rightarrow> user option" where
  "findUserByUsername n d = find (\<lambda>u. matches (map_option trim n) (username u)) (users d)"

text \<open>
  \<^verbatim>\<open>new User({...}).save()\<close>: \<^verbatim>\<open>username\<close>, \<^verbatim>\<open>email\<close>,
  \<^verbatim>\<open>password\<close> and \<^verbatim>\<open>user_type\<close> are required, \<^verbatim>\<open>user_type\<close> is one of the
  enum's values, \<^verbatim>\<open>username\<close> and \<^verbatim>\<open>email\<close> are unique. The other paths take
  their defaults: not verified, status \<^verbatim>\<open>none\<close>.
\<close>

definition saveUser ::
  "string option \<Rightarrow> string option \<Rightarrow> string \<Rightarrow> string option \<Rightarrow> db \<Rightarrow> db_error + (user \<times> db)" where
  "saveUser n m hashed ut d =
     (if \<not> (truthy (map_option trim n) \<and> truthy m \<and> hashed \<noteq> [])
      then Inl ValidationError
      else if ut \<notin> {Some ''student'', Some ''landlord'', Some ''admin''}
      then Inl ValidationError
      else if list_ex (\<lambda>u. username u = trim (the n) \<or> email u = toLowerCase (the m)) (users d)
      then Inl DuplicateKey
      else
        (let usr = \<lparr>u_id = next_id d, username = trim (the n), email = toLowerCase (the m),
                    password = hashed, user_type = the ut, profilePictureUrl = [],
                    bio = [], isVerified = False, verificationStatus = ''none'',
                    verificationDocument = []\<rparr>
         in Inr (usr, d\<lparr>users := users d @ [usr], next_id := Suc (next_id d)\<rparr>)))"

definition token_for :: "env \<Rightarrow> user \<Rightarrow> string" where
  "token_for e usr =
     jwt_sign e \<lparr>userId = u_id usr, jwt_username = username usr, userType = user_type usr\<rparr>"

text \<open>
  \<^verbatim>\<open>POST /api/signup\<close>. \<^verbatim>\<open>bcrypt.hash\<close> throws on a missing password, which the
  \<^verbatim>\<open>catch\<close> answers with 500.
\<close>

definition signup ::
  "env \<Rightarrow> string option \<Rightarrow> string option \<Rightarrow> string option \<Rightarrow> string option \<Rightarrow> db \<Rightarrow> response \<times> db" where
  "signup e m pw ut n d =
     (if findUserByEmail m d \<noteq> None
      then (reply 409 (JMsg ''Email already registered.''), d)
      else if findUserByUsername n d \<noteq> None
      then (reply 409 (JMsg ''Username is already taken.''), d)
      else
        (case pw of
           None \<Rightarrow> (reply 500 (JMsg ''Server error during signup.''), d)
         | Some p \<Rightarrow>
             (case saveUser n m (bcrypt_hash e p) ut d of
                Inl err \<Rightarrow> (reply 500 (JMsg ''Server error during signup.''), d)
              | Inr (newUser, d1) \<Rightarrow> (reply 201 (JSession (token_for e newUser) newUser), d1))))"

text \<open>The update of the first user document with the given id.\<close>

definition updateUser :: "oid \<Rightarrow> (user \<Rightarrow> user) \<Rightarrow> db \<Rightarrow> db" where
  "updateUser i f d = d\<lparr>users := update_first (\<lambda>u. u_id u = i) f (users d)\<rparr>"

text \<open>\<^verbatim>\<open>POST /api/upload-verification\<close>. The route has no middleware.\<close>

definition upload_verification :: "oid option \<Rightarrow> string option \<Rightarrow> db \<Rightarrow> response \<times> db" where
  "upload_verification uid documentImage d =
     (if \<not> (uid \<noteq> None \<and> truthy documentImage)
      then (reply 400 (JMsg ''Missing user ID or document''), d)
      else
        (case findUserById (the uid) d of
           None \<Rightarrow> (reply 404 (JMsg ''User not found''), d)
         | Some usr \<Rightarrow>
             (let d1 = updateUser (the uid)
                         (\<lambda>x. x\<lparr>verificationStatus := ''pending'',
                                verificationDocument := the documentImage\<rparr>) d
              in (reply 200 (JUser ''Verification submitted successfully! Please wait for Admin approval.''
                               (findUserById (the uid) d1)), d1))))"

text \<open>
  \<^verbatim>\<open>POST /api/admin/verify-action\<close>. The route is registered without any
  middleware, although it stands under the heading \<^verbatim>\<open>ADMIN ROUTES\<close>: the handler
  reads the body alone, no header and no token. It does not check \<^verbatim>\<open>userId\<close>;
  \<^verbatim>\<open>findByIdAndUpdate\<close> is \<^verbatim>\<open>findOneAndUpdate({ _id: id }, ...)\<close>, and the
  answer carries the updated document, or null when the filter matched none.
\<close>

definition verify_action :: "oid option \<Rightarrow> string option \<Rightarrow> db \<Rightarrow> response \<times> db" where
  "verify_action uid action d =
     (if action \<notin> {Some ''approve'', Some ''reject''}
      then (reply 400 (JMsg ''Invalid action''), d)
      else
        (let st = (if action = Some ''approve'' then ''approved'' else ''rejected'');
             upd = (\<lambda>x. x\<lparr>verificationStatus := st, isVerified := (action = Some ''approve'')\<rparr>)
         in (reply 200 (JUser (''User '' @ st @ '' successfully!'')
                          (map_option upd (find (\<lambda>x. matches uid (u_id x)) (users d)))),
             d\<lparr>users := update_first (\<lambda>x. matches uid (u_id x)) upd (users d)\<rparr>)))"

text \<open>\<^verbatim>\<open>POST /api/profile/change-password\<close>, after \<^verbatim>\<open>authenticateToken\<close>.\<close>

definition change_password ::
  "env \<Rightarrow> jwt_user \<Rightarrow> string option \<Rightarrow> string option \<Rightarrow> db \<Rightarrow> response \<times> db" where
  "change_password e u currentPassword newPassword d =
     (if \<not> (truthy currentPassword \<and> truthy newPassword)
      then (reply 400 (JMsg ''All fields are required.''), d)
      else
        (case findUserById (userId u) d of
           None \<Rightarrow> (reply 404 (JMsg ''User not found.''), d)
         | Some usr \<Rightarrow>
             if \<not> bcrypt_compare e (the currentPassword) (password usr)
             then (reply 401 (JMsg ''Incorrect current password.''), d)
             else (reply 200 (JMsg ''Password updated successfully!''),
                   updateUser (userId u)
                     (\<lambda>x. x\<lparr>password := bcrypt_hash e (the newPassword)\<rparr>) d)))"

text \<open>
  \<^verbatim>\<open>PUT /api/profile/update-username\<close>, after \<^verbatim>\<open>authenticateToken\<close>. When the
  caller's document is gone, \<^verbatim>\<open>updatedUser\<close> is null and reading its fields throws.
\<close>

definition update_username :: "env \<Rightarrow> jwt_user \<Rightarrow> string option \<Rightarrow> db \<Rightarrow> response \<times> db" where
  "update_username e u newUsername d =
     (if \<not> truthy (map_option trim newUsername)
      then (reply 400 (JMsg ''Username cannot be empty.''), d)
      else if list_ex (\<lambda>x. username x = trim (the newUsername) \<and> u_id x \<noteq> userId u) (users d)
      then (reply 409 (JMsg ''Username is already taken.''), d)
      else
        (let d1 = updateUser (userId u) (\<lambda>x. x\<lparr>username := trim (the newUsername)\<rparr>) d
         in case findUserById (userId u) d1 of
              None \<Rightarrow> (reply 500 (JMsg ''Server error updating username.''), d1)
            | Some updatedUser \<Rightarrow>
                (reply 200 (JUsername ''Username updated successfully!''
                              (username updatedUser) (token_for e updatedUser)), d1)))"

text \<open>\<^verbatim>\<open>PUT /api/profile/upload-picture\<close>, after \<^verbatim>\<open>authenticateToken\<close> and the parser.\<close>

definition upload_picture :: "env \<Rightarrow> jwt_user \<Rightarrow> string option \<Rightarrow> db \<Rightarrow> response \<times> db" where
  "upload_picture e u file d =
     (case file of
        None \<Rightarrow> (reply 400 (JMsg ''No file uploaded.''), d)
      | Some buffer \<Rightarrow>
          (case cloud_upload e buffer of
             None \<Rightarrow> (reply 500 (JMsg ''Server error uploading profile picture.''), d)
           | Some url \<Rightarrow>
               (reply 200 (JPicture ''Profile picture updated successfully!'' url),
                updateUser (userId u) (\<lambda>x. x\<lparr>profilePictureUrl := url\<rparr>) d)))"

text \<open>
  \<^verbatim>\<open>PUT /api/profile/update-bio\<close>, after \<^verbatim>\<open>authenticateToken\<close>. \<^verbatim>\<open>user.save()\<close>
  validates \<^verbatim>\<open>bio\<close> against its \<^verbatim>\<open>maxLength\<close> of 250; an undefined bio is stored
  as the default.
\<close>

definition update_bio :: "jwt_user \<Rightarrow> string option \<Rightarrow> db \<Rightarrow> response \<times> db" where
  "update_bio u new_bio d =
     (case findUserById (userId u) d of
        None \<Rightarrow> (reply 404 (JMsg ''User not found.''), d)
      | Some usr \<Rightarrow>
          if 250 < js_length (case new_bio of None \<Rightarrow> [] | Some s \<Rightarrow> s)
          then (reply 500 (JMsg ''Server error updating bio.''), d)
          else (reply 200 (JBio ''Bio updated successfully!'' new_bio),
                updateUser (userId u)
                  (\<lambda>x. x\<lparr>bio := (case new_bio of None \<Rightarrow> [] | Some s \<Rightarrow> s)\<rparr>) d))"

text \<open>
  \<^verbatim>\<open>POST /api/profile/delete-account\<close>, after \<^verbatim>\<open>authenticateToken\<close>. The cascade
  follows \<^verbatim>\<open>userType\<close> of the token: for a landlord the ids of the properties are
  read first, then the properties and what refers to them are deleted.
\<close>

definition delete_account :: "env \<Rightarrow> jwt_user \<Rightarrow> string option \<Rightarrow> db \<Rightarrow> response \<times> db" where
  "delete_account e u pw d =
     (if \<not> truthy pw
      then (reply 400 (JMsg ''Password is required for deletion.''), d)
      else
        (case findUserById (userId u) d of
           None \<Rightarrow> (reply 404 (JMsg ''User not found.''), d)
         | Some usr \<Rightarrow>
             if \<not> bcrypt_compare e (the pw) (password usr)
             then (reply 401 (JMsg ''Incorrect password.''), d)
             else
               (let d1 =
                      (if userType u = ''landlord''
                       then
                         (let propertyIds = map p_id (filter (\<lambda>p. landlord_id p = userId u) (properties d))
                          in d\<lparr>properties := filter (\<lambda>p. landlord_id p \<noteq> userId u) (properties d),
                               favorites := filter (\<lambda>f. f_property_id f \<notin> set propertyIds) (favorites d),
                               conversations :=
                                 filter (\<lambda>c. c_property_id c \<notin> set propertyIds) (conversations d),
                               property_views :=
                                 filter (\<lambda>v. v_property_id v \<notin> set propertyIds) (property_views d)\<rparr>)
                       else if userType u = ''student''
                       then d\<lparr>favorites := filter (\<lambda>f. f_user_id f \<noteq> userId u) (favorites d),
                               conversations :=
                                 filter (\<lambda>c. c_student_id c \<noteq> userId u) (conversations d)\<rparr>
                       else d)
                in (reply 200 (JMsg ''Your account has been permanently deleted.''),
                    d1\<lparr>users := delete_first (\<lambda>x. u_id x = userId u) (users d1)\<rparr>))))"

subsection \<open>The other handlers that write\<close>

text \<open>
  \<^verbatim>\<open>POST /api/conversations\<close>, after \<^verbatim>\<open>authenticateToken\<close>: the caller is the
  student, the landlord comes from the body. The answer carries the conversation's id.
  All three paths of ConversationSchema are required.
\<close>

definition post_conversations :: "jwt_user \<Rightarrow> oid option \<Rightarrow> oid option \<Rightarrow> db \<Rightarrow> response \<times> db" where
  "post_conversations u property_id lid d =
     (case find (\<lambda>c. matches property_id (c_property_id c) \<and> c_student_id c = userId u)
             (conversations d) of
        Some convo \<Rightarrow> (reply 200 (JConversationId (c_id convo)), d)
      | None \<Rightarrow>
          if \<not> (property_id \<noteq> None \<and> lid \<noteq> None)
          then (reply 500 (JMsg ''Server error starting conversation.''), d)
          else
            (let newConvo = \<lparr>c_id = next_id d, c_property_id = the property_id,
                             c_student_id = userId u, c_landlord_id = the lid\<rparr>
             in (reply 201 (JConversationId (c_id newConvo)),
                 d\<lparr>conversations := conversations d @ [newConvo], next_id := Suc (next_id d)\<rparr>)))"

text \<open>\<^verbatim>\<open>POST /api/properties/:propertyId/view\<close>; the route has no middleware.\<close>

definition post_view :: "oid \<Rightarrow> db \<Rightarrow> response \<times> db" where
  "post_view propertyId d =
     (reply 200 (JMsg ''View recorded.''),
      d\<lparr>property_views := property_views d @ [\<lparr>v_id = next_id d, v_property_id = propertyId\<rparr>],
        next_id := Suc (next_id d)\<rparr>)"

text \<open>\<^verbatim>\<open>DELETE /api/favorites/:propertyId\<close>, after \<^verbatim>\<open>authenticateToken\<close>.\<close>

definition delete_favorite :: "jwt_user \<Rightarrow> oid \<Rightarrow> db \<Rightarrow> response \<times> db" where
  "delete_favorite u propertyId d =
     (reply 200 (JMsg ''Favorite removed''),
      d\<lparr>favorites :=
          delete_first (\<lambda>f. f_user_id f = userId u \<and> f_property_id f = propertyId) (favorites d)\<rparr>)"

text \<open>\<^verbatim>\<open>PUT /api/notifications/mark-read\<close>, after \<^verbatim>\<open>authenticateToken\<close>.\<close>

definition mark_read :: "jwt_user \<Rightarrow> db \<Rightarrow> response \<times> db" where
  "mark_read u d =
     (reply 200 (JMsg ''All notifications marked as read.''),
      d\<lparr>notifications :=
          map (\<lambda>n. if n_recipient_id n = userId u \<and> \<not> isRead n then n\<lparr>isRead := True\<rparr> else n)
            (notifications d)\<rparr>)"

text \<open>\<^verbatim>\<open>POST /api/conversations/:id/ask-ai\<close>, after \<^verbatim>\<open>authenticateToken\<close>.\<close>

definition ask_ai :: "env \<Rightarrow> oid \<Rightarrow> string option \<Rightarrow> world \<Rightarrow> response \<times> world" where
  "ask_ai e i question w =
     (if \<not> truthy question then (reply 400 (JMsg ''A question is required.''), w)
      else if \<not> gemini_api_key e then (reply 500 (JMsg ''AI service is not configured.''), w)
      else
        (case findConversationById (Some i) (store w) of
           None \<Rightarrow> (reply 404 (JMsg ''Conversation not found.''), w)
         | Some conv \<Rightarrow>
             (case findPropertyById (c_property_id conv) (store w) of
                None \<Rightarrow> (reply 404 (JMsg ''Property not found for this conversation.''), w)
              | Some prop \<Rightarrow>
                  (case generate e prop (the question) of
                     AiFailed \<Rightarrow> (reply 500 (JMsg ''Server error processing AI request.''), w)
                   | AiNoText \<Rightarrow> (reply 500 (JMsg ''Could not get an answer from AI.''), w)
                   | AiText answer \<Rightarrow>
                       if answer = []
                       then (reply 500 (JMsg ''Could not get an answer from AI.''), w)
                       else
                         (case saveMessage i (c_landlord_id conv) (Some answer) (store w) of
                            Inl err \<Rightarrow> (reply 500 (JMsg ''Server error processing AI request.''), w)
                          | Inr (botMessage, d1) \<Rightarrow>
                              (reply 200 (JMsg ''AI response sent.''),
                               forEach [c_student_id conv, c_landlord_id conv]
                                 (pushTo (NewMessage botMessage)) (w\<lparr>store := d1\<rparr>)))))))"

section \<open>The server as a transition system\<close>

text \<open>
  Everything that can change the state of the process or of the database: a frame or a
  close on a socket, the timer of an automated reply, and a request to one of the
  routes that write. The routes that only read (the GET routes and the login) leave
  the state as it is and are not events. A request to a route behind
  \<^verbatim>\<open>authenticateToken\<close> carries its \<^verbatim>\<open>Authorization\<close> header.
\<close>

datatype event =
    WsMessage conn "ws_data option"
  | WsClose conn
  | TimerFires
  | Signup "string option" "string option" "string option" "string option"
  | UploadVerification "oid option" "string option"
  | VerifyAction "oid option" "string option"
  | PostProperties "string option" property_body "string list option"
  | PutProperty "string option" oid property_body
  | DeleteProperty "string option" oid
  | PostView oid
  | PostFavorites "string option" "oid option"
  | DeleteFavorite "string option" oid
  | PostConversations "string option" "oid option" "oid option"
  | PostReview "string option" oid "rat option" "string option"
  | ChangePassword "string option" "string option" "string option"
  | UpdateUsername "string option" "string option"
  | UploadPicture "string option" "string option"
  | UpdateBio "string option" "string option"
  | DeleteAccount "string option" "string option"
  | MarkRead "string option"
  | AskAi "string option" oid "string option"

text \<open>A handler of the database alone, run in the world.\<close>

definition on_store :: "(db \<Rightarrow> 'r \<times> db) \<Rightarrow> world \<Rightarrow> world" where
  "on_store h w = w\<lparr>store := snd (h (store w))\<rparr>"

definition behind_auth :: "env \<Rightarrow> string option \<Rightarrow> (jwt_user \<Rightarrow> db \<Rightarrow> 'r \<times> db) \<Rightarrow> world \<Rightarrow> world" where
  "behind_auth e authHeader h w =
     (case bearer_token authHeader of
        None \<Rightarrow> w
      | Some tok \<Rightarrow> (case jwt_verify e tok of None \<Rightarrow> w | Some u \<Rightarrow> on_store (h u) w))"

fun step :: "env \<Rightarrow> event \<Rightarrow> world \<Rightarrow> world" where
  "step e (WsMessage ws raw) w = on_message e ws raw w"
| "step e (WsClose ws) w = on_close ws w"
| "step e TimerFires w =
     (case timers w of [] \<Rightarrow> w | t # ts \<Rightarrow> on_timer t (w\<lparr>timers := ts\<rparr>))"
| "step e (Signup m pw ut n) w = on_store (signup e m pw ut n) w"
| "step e (UploadVerification uid doc) w = on_store (upload_verification uid doc) w"
| "step e (VerifyAction uid action) w = on_store (verify_action uid action) w"
| "step e (PostProperties h b files) w = behind_auth e h (\<lambda>u. post_properties e u b files) w"
| "step e (PutProperty h i b) w = behind_auth e h (\<lambda>u. put_property u i b) w"
| "step e (DeleteProperty h i) w = behind_auth e h (\<lambda>u. delete_property u i) w"
| "step e (PostView i) w = on_store (post_view i) w"
| "step e (PostFavorites h pid) w =
     snd (authenticateToken e h (\<lambda>u. post_favorites u pid) w)"
| "step e (DeleteFavorite h i) w = behind_auth e h (\<lambda>u. delete_favorite u i) w"
| "step e (PostConversations h pid lid) w = behind_auth e h (\<lambda>u. post_conversations u pid lid) w"
| "step e (PostReview h i rt cm) w = behind_auth e h (\<lambda>u. post_review u i rt cm) w"
| "step e (ChangePassword h cur new) w = behind_auth e h (\<lambda>u. change_password e u cur new) w"
| "step e (UpdateUsername h n) w = behind_auth e h (\<lambda>u. update_username e u n) w"
| "step e (UploadPicture h file) w = behind_auth e h (\<lambda>u. upload_picture e u file) w"
| "step e (UpdateBio h b) w = behind_auth e h (\<lambda>u. update_bio u b) w"
| "step e (DeleteAccount h pw) w = behind_auth e h (\<lambda>u. delete_account e u pw) w"
| "step e (MarkRead h) w = behind_auth e h (\<lambda>u. mark_read u) w"
| "step e (AskAi h i q) w = snd (authenticateToken e h (\<lambda>u. ask_ai e i q) w)"

fun run :: "env \<Rightarrow> event list \<Rightarrow> world \<Rightarrow> world" where
  "run e [] w = w"
| "run e (ev # evs) w = run e evs (step e ev w)"

text \<open>
  The process at start: an empty registry, no timer. Every socket object is created
  open by the library when its connection is accepted.
\<close>

definition empty_db :: db where
  "empty_db = \<lparr>users = [], properties = [], favorites = [], conversations = [], messages = [],
     property_views = [], notifications = [], reviews = [], next_id = 0\<rparr>"

definition fresh_socket :: socket where
  "fresh_socket = \<lparr>readyState = OPEN, ws_userId = None, ws_userType = None, sent = []\<rparr>"

definition boot :: "db \<Rightarrow> world" where
  "boot d = \<lparr>store = d, clients = Map.empty, sockets = (\<lambda>k. fresh_socket), timers = []\<rparr>"

section \<open>Loading the module\<close>

text \<open>
  The module is the text of \<^verbatim>\<open>server.js\<close> up to the call of
  \<^verbatim>\<open>server.listen\<close>; the React component that follows it in the file, after a
  separator line, is a document of its own. Below are the top-level statements of the
  module, in the order Node evaluates them, each with the identifiers its evaluation
  reads. A function expression reads nothing when it is evaluated (its body runs at a
  call), so a handler written in place contributes no name; a middleware passed by name
  is read when the call that registers the route evaluates its arguments. Reading a name
  that is not bound throws a ReferenceError, which nothing at top level catches:
  evaluation stops there. The environment is taken to be configured, so that the call
  of \<^verbatim>\<open>connectDB\<close> does not exit the process.
\<close>

datatype stmt =
    Const string "string list"
  | Expr "string list"
  | Route string string "string list"
  | Listen "string list"

datatype js_error = ReferenceError string

record module_state =
  scope :: "string list"
  routes :: "(string \<times> string) list"
  listening :: bool

definition unbound :: "string list \<Rightarrow> string list \<Rightarrow> string option" where
  "unbound sc names = find (\<lambda>n. n \<notin> set sc) names"

fun exec :: "stmt \<Rightarrow> module_state \<Rightarrow> js_error + module_state" where
  "exec (Const n reads) s =
     (case unbound (scope s) reads of
        Some x \<Rightarrow> Inl (ReferenceError x)
      | None \<Rightarrow> Inr (s\<lparr>scope := n # scope s\<rparr>))"
| "exec (Expr reads) s =
     (case unbound (scope s) reads of
        Some x \<Rightarrow> Inl (ReferenceError x)
      | None \<Rightarrow> Inr s)"
| "exec (Route m p reads) s =
     (case unbound (scope s) reads of
        Some x \<Rightarrow> Inl (ReferenceError x)
      | None \<Rightarrow> Inr (s\<lparr>routes := routes s @ [(m, p)]\<rparr>))"
| "exec (Listen reads) s =
     (case unbound (scope s) reads of
        Some x \<Rightarrow> Inl (ReferenceError x)
      | None \<Rightarrow> Inr (s\<lparr>listening := True\<rparr>))"

fun load :: "stmt list \<Rightarrow> module_state \<Rightarrow> js_error + module_state" where
  "load [] s = Inr s"
| "load (st # sts) s = (case exec st s of Inl err \<Rightarrow> Inl err | Inr s1 \<Rightarrow> load sts s1)"

text \<open>The names Node binds in every module, as far as the file uses them.\<close>

definition node_globals :: "string list" where
  "node_globals = [''require'', ''module'', ''exports'', ''process'', ''console'', ''Map'',
     ''JSON'', ''String'', ''Promise'', ''Math'', ''Error'', ''parseInt'', ''setTimeout'']"

definition node_start :: module_state where
  "node_start = \<lparr>scope = node_globals, routes = [], listening = False\<rparr>"

definition declarations :: "stmt list" where
  "declarations =
    [Expr [''require''],
     Const ''express'' [''require''],
     Const ''http'' [''require''],
     Const ''WebSocketServer'' [''require''],
     Const ''bodyParser'' [''require''],
     Const ''cors'' [''require''],
     Const ''bcrypt'' [''require''],
     Const ''jwt'' [''require''],
     Const ''multer'' [''require''],
     Const ''cloudinary'' [''require''],
     Const ''mongoose'' [''require''],
     Const ''fetch'' [''require''],
     Const ''connectDB'' [],
     Const ''app'' [''express''],
     Expr [''connectDB''],
     Const ''PORT'' [''process''],
     Const ''JWT_SECRET'' [''process''],
     Const ''GEMINI_API_KEY'' [''process''],
     Const ''server'' [''http'', ''app''],
     Const ''wss'' [''WebSocketServer'', ''server''],
     Const ''ApplicationSchema'' [''mongoose''],
     Const ''Application'' [''mongoose'', ''ApplicationSchema''],
     Const ''UserSchema'' [''mongoose''],
     Const ''PropertySchema'' [''mongoose''],
     Const ''FavoriteSchema'' [''mongoose''],
     Expr [''FavoriteSchema''],
     Const ''ConversationSchema'' [''mongoose''],
     Const ''MessageSchema'' [''mongoose''],
     Const ''PropertyViewSchema'' [''mongoose''],
     Const ''NotificationSchema'' [''mongoose''],
     Const ''ReviewSchema'' [''mongoose''],
     Expr [''ReviewSchema''],
     Const ''User'' [''mongoose'', ''UserSchema''],
     Const ''Property'' [''mongoose'', ''PropertySchema''],
     Const ''Favorite'' [''mongoose'', ''FavoriteSchema''],
     Const ''Conversation'' [''mongoose'', ''ConversationSchema''],
     Const ''Message'' [''mongoose'', ''MessageSchema''],
     Const ''PropertyView'' [''mongoose'', ''PropertyViewSchema''],
     Const ''Notification'' [''mongoose'', ''NotificationSchema''],
     Const ''Review'' [''mongoose'', ''ReviewSchema''],
     Expr [''cloudinary'', ''process''],
     Const ''storage'' [''multer''],
     Const ''upload'' [''multer'', ''storage''],
     Const ''corsOptions'' [],
     Expr [''app'', ''cors'', ''corsOptions''],
     Expr [''app'', ''bodyParser''],
     Expr [''app'', ''bodyParser''],
     Expr [''app'', ''express''],
     Expr [''app'', ''express''],
     Const ''authenticateToken'' [],
     Const ''clients'' [''Map''],
     Expr [''wss'']]"

definition rest_routes :: "stmt list" where
  "rest_routes =
    [Route ''post'' ''/api/signup'' [''app''],
     Route ''post'' ''/api/upload-verification'' [''app''],
     Route ''post'' ''/api/login'' [''app''],
     Route ''get'' ''/api/properties'' [''app''],
     Route ''get'' ''/api/properties/featured'' [''app''],
     Route ''get'' ''/api/properties/cities'' [''app''],
     Route ''get'' ''/api/properties/:id'' [''app''],
     Route ''post'' ''/api/properties'' [''app'', ''authenticateToken'', ''upload''],
     Route ''put'' ''/api/properties/:id'' [''app'', ''authenticateToken''],
     Route ''delete'' ''/api/properties/:id'' [''app'', ''authenticateToken''],
     Route ''post'' ''/api/properties/:propertyId/view'' [''app''],
     Route ''get'' ''/api/favorites'' [''app'', ''authenticateToken''],
     Route ''post'' ''/api/favorites'' [''app'', ''authenticateToken''],
     Route ''delete'' ''/api/favorites/:propertyId'' [''app'', ''authenticateToken''],
     Route ''get'' ''/api/conversations'' [''app'', ''authenticateToken''],
     Route ''post'' ''/api/conversations'' [''app'', ''authenticateToken''],
     Route ''get'' ''/api/conversations/:id/messages'' [''app'', ''authenticateToken''],
     Route ''get'' ''/api/properties/:propertyId/reviews'' [''app''],
     Route ''post'' ''/api/properties/:propertyId/reviews'' [''app'', ''authenticateToken''],
     Route ''get'' ''/api/properties/:propertyId/reviews/summary'' [''app''],
     Route ''get'' ''/api/profile/stats'' [''app'', ''authenticateToken''],
     Route ''post'' ''/api/profile/change-password'' [''app'', ''authenticateToken''],
     Route ''put'' ''/api/profile/update-username'' [''app'', ''authenticateToken''],
     Route ''put'' ''/api/profile/upload-picture'' [''app'', ''authenticateToken'', ''upload''],
     Route ''put'' ''/api/profile/update-bio'' [''app'', ''authenticateToken''],
     Route ''post'' ''/api/profile/delete-account'' [''app'', ''authenticateToken''],
     Route ''get'' ''/api/dashboard/stats'' [''app'', ''authenticateToken''],
     Route ''get'' ''/api/notifications'' [''app'', ''authenticateToken''],
     Route ''put'' ''/api/notifications/mark-read'' [''app'', ''authenticateToken''],
     Route ''post'' ''/api/properties/generate-description'' [''app'', ''authenticateToken''],
     Route ''post'' ''/api/conversations/:id/ask-ai'' [''app'', ''authenticateToken''],
     Route ''get'' ''/api/admin/verifications'' [''app''],
     Route ''post'' ''/api/admin/verify-action'' [''app'']]"

definition application_routes :: "stmt list" where
  "application_routes =
    [Route ''post'' ''/api/applications'' [''app'', ''requireAuth''],
     Route ''get'' ''/api/applications/student'' [''app'', ''requireAuth''],
     Route ''get'' ''/api/applications/landlord'' [''app'', ''requireAuth''],
     Route ''post'' ''/api/applications/:id/status'' [''app'', ''requireAuth'']]"

definition server_js :: "stmt list" where
  "server_js = declarations @ rest_routes @ application_routes @ [Listen [''server'', ''PORT'']]"

text \<open>The names a module binds at top level, wherever in the file.\<close>

fun bound_names :: "stmt list \<Rightarrow> string list" where
  "bound_names [] = []"
| "bound_names (Const n reads # sts) = n # bound_names sts"
| "bound_names (st # sts) = bound_names sts"

text \<open>
  A request reaches a handler when the module has loaded, the server listens and the
  route is registered.
\<close>

definition serves :: "stmt list \<Rightarrow> string \<Rightarrow> string \<Rightarrow> bool" where
  "serves prog m p =
     (case load prog node_start of
        Inl err \<Rightarrow> False
      | Inr s \<Rightarrow> listening s \<and> (m, p) \<in> set (routes s))"

section \<open>Notions for the statements and the proofs\<close>

text \<open>
  The pairs (property, user) of the stored reviews, and whether a pair has a review: the
  unique index of ReviewSchema is about these.
\<close>

definition review_keys :: "db \<Rightarrow> (oid \<times> oid) list" where
  "review_keys d = map (\<lambda>r. (r_property_id r, r_user_id r)) (reviews d)"

definition has_review :: "oid \<Rightarrow> oid \<Rightarrow> db \<Rightarrow> bool" where
  "has_review pid uid d = list_ex (\<lambda>r. r_property_id r = pid \<and> r_user_id r = uid) (reviews d)"

text \<open>
  The verification state of a user, and two stores that agree on it for every user id
  they both hold.
\<close>

definition vstate :: "user \<Rightarrow> string \<times> bool" where
  "vstate usr = (verificationStatus usr, isVerified usr)"

definition same_vstate :: "db \<Rightarrow> db \<Rightarrow> bool" where
  "same_vstate d d' =
     (\<forall>i usr usr'. findUserById i d = Some usr \<and> findUserById i d' = Some usr'
        \<longrightarrow> vstate usr' = vstate usr)"

text \<open>
  The user ids of a store are distinct and below the counter that hands out the next id.
\<close>

definition ids_fresh :: "db \<Rightarrow> bool" where
  "ids_fresh d = (distinct (map u_id (users d)) \<and> list_all (\<lambda>u. u_id u < next_id d) (users d))"

section \<open>Concrete scenarios\<close>

text \<open>
  An environment and states at which the theorems below are instantiated. The token
  \<^verbatim>\<open>tokA\<close> belongs to the student ann with id 0, \<^verbatim>\<open>tokB\<close> to the landlord
  bob with id 8, \<^verbatim>\<open>tokL\<close> to the landlord lou, who is the first to sign up in the
  scenarios where she appears and so has id 0 there. A password hashes to itself behind
  a \<^verbatim>\<open>#\<close>.
\<close>

definition demo_env :: env where
  "demo_env =
     \<lparr>jwt_verify = (\<lambda>t. if t = ''tokA'' then Some \<lparr>userId = 0, jwt_username = ''ann'', userType = ''student''\<rparr>
                        else if t = ''tokB'' then Some \<lparr>userId = 8, jwt_username = ''bob'', userType = ''landlord''\<rparr>
                        else if t = ''tokL'' then Some \<lparr>userId = 0, jwt_username = ''lou'', userType = ''landlord''\<rparr>
                        else None),
      jwt_sign = (\<lambda>u. if jwt_username u = ''ann'' then ''tokA''
                       else if jwt_username u = ''lou'' then ''tokL'' else ''tokB''),
      bcrypt_hash = (\<lambda>p. ''#'' @ p),
      bcrypt_compare = (\<lambda>p h. h = ''#'' @ p),
      cloud_upload = (\<lambda>f. Some (''https://img/'' @ f)),
      gemini_api_key = False,
      generate = (\<lambda>p q. AiFailed)\<rparr>"

definition ann :: jwt_user where
  "ann = \<lparr>userId = 0, jwt_username = ''ann'', userType = ''student''\<rparr>"

definition bob :: jwt_user where
  "bob = \<lparr>userId = 8, jwt_username = ''bob'', userType = ''landlord''\<rparr>"

definition ann_signup :: event where
  "ann_signup = Signup (Some ''ann@x.org'') (Some ''pw'') (Some ''student'') (Some ''ann'')"

text \<open>
  A relay with the student on connection 3, open, and the landlord on connection 4,
  closed; they share conversation 10.
\<close>

definition demo_conv :: conversation where
  "demo_conv = \<lparr>c_id = 10, c_property_id = 5, c_student_id = 0, c_landlord_id = 8\<rparr>"

definition demo_world :: world where
  "demo_world =
     \<lparr>store = empty_db\<lparr>conversations := [demo_conv], next_id := 20\<rparr>,
      clients = [0 \<mapsto> 3, 8 \<mapsto> 4],
      sockets = (\<lambda>k. fresh_socket)
        (3 := \<lparr>readyState = OPEN, ws_userId = Some 0, ws_userType = Some ''student'', sent = []\<rparr>,
         4 := \<lparr>readyState = 3, ws_userId = Some 8, ws_userType = Some ''landlord'', sent = []\<rparr>),
      timers = []\<rparr>"

text \<open>
  The student signs up, opens a conversation naming itself as the landlord, and
  authenticates on connection 3.
\<close>

definition self_chat_world :: world where
  "self_chat_world =
     run demo_env
       [ann_signup,
        PostConversations (Some ''Bearer tokA'') (Some 5) (Some 0),
        WsMessage 3 (auth_frame ''tokA'')]
       (boot empty_db)"

text \<open>
  The student signs up and stores a favorite, respectively a review, for property 5.
\<close>

definition fav_world :: world where
  "fav_world = run demo_env [ann_signup, PostFavorites (Some ''Bearer tokA'') (Some 5)] (boot empty_db)"

definition review_world :: world where
  "review_world =
     run demo_env [ann_signup, PostReview (Some ''Bearer tokA'') 5 (Some 4) (Some ''good'')]
       (boot empty_db)"

text \<open>
  A store that holds a review under the id of the landlord bob. The server stores none
  such itself, since the handler refuses every caller who is not a student.
\<close>

definition imported_review_db :: db where
  "imported_review_db =
     empty_db\<lparr>reviews := [\<lparr>r_id = 1, r_property_id = 5, r_user_id = 8, rating = 3,
                              comment = ''fine''\<rparr>],
              next_id := 20\<rparr>"

text \<open>
  A store with one property of the landlord bob, and an update that renames it.
\<close>

definition demo_property :: property where
  "demo_property =
     \<lparr>p_id = 5, landlord_id = 8, title = ''Flat'', description = None, address = ''1 Main St'',
      city = ''Pune'', price = 9000, property_type = ''apartment'', bedrooms = Some 2,
      bathrooms = None, amenities = None, image_url = Some [], images = [], lat = None,
      lng = None, virtual_tour_url = []\<rparr>"

definition demo_db :: db where
  "demo_db = empty_db\<lparr>properties := [demo_property], next_id := 20\<rparr>"

definition rename_body :: property_body where
  "rename_body =
     \<lparr>b_landlord_id = None, b_title = Some ''Loft'', b_description = None, b_address = None,
      b_city = None, b_price = None, b_property_type = None, b_bedrooms = None,
      b_bathrooms = None, b_amenities = None, b_image_url = None, b_images = None,
      b_lat = None, b_lng = None, b_virtual_tour_url = None\<rparr>"

text \<open>
  The landlord lou has signed up and nothing else has happened: she is not verified.
  \<open>flat_body\<close> is a listing that passes the schema.
\<close>

definition landlord_world :: world where
  "landlord_world =
     run demo_env [Signup (Some ''lou@x.org'') (Some ''pw'') (Some ''landlord'') (Some ''lou'')]
       (boot empty_db)"

definition lou_user :: user where
  "lou_user =
     \<lparr>u_id = 0, username = ''lou'', email = ''lou@x.org'', password = ''#pw'',
      user_type = ''landlord'', profilePictureUrl = [], bio = [], isVerified = False,
      verificationStatus = ''none'', verificationDocument = []\<rparr>"

definition flat_body :: property_body where
  "flat_body =
     \<lparr>b_landlord_id = None, b_title = Some ''Flat'', b_description = None,
      b_address = Some ''1 Main St'', b_city = Some ''Pune'', b_price = Some 9000,
      b_property_type = Some ''apartment'', b_bedrooms = None, b_bathrooms = None,
      b_amenities = None, b_image_url = None, b_images = None, b_lat = None, b_lng = None,
      b_virtual_tour_url = None\<rparr>"

text \<open>
  A store in which the landlord bob owns property 5 and somebody else property 6, with
  favorites, a conversation and views on both sides.
\<close>

definition bob_user :: user where
  "bob_user =
     \<lparr>u_id = 8, username = ''bob'', email = ''bob@x.org'', password = ''#pw'',
      user_type = ''landlord'', profilePictureUrl = [], bio = [], isVerified = True,
      verificationStatus = ''approved'', verificationDocument = ''id.png''\<rparr>"

definition cascade_db :: db where
  "cascade_db =
     \<lparr>users = [bob_user],
      properties = [demo_property, demo_property\<lparr>p_id := 6, landlord_id := 9\<rparr>],
      favorites = [\<lparr>f_id = 10, f_user_id = 0, f_property_id = 5\<rparr>,
                   \<lparr>f_id = 11, f_user_id = 0, f_property_id = 6\<rparr>],
      conversations = [\<lparr>c_id = 12, c_property_id = 5, c_student_id = 0, c_landlord_id = 8\<rparr>],
      messages = [],
      property_views = [\<lparr>v_id = 13, v_property_id = 5\<rparr>, \<lparr>v_id = 14, v_property_id = 6\<rparr>],
      notifications = [], reviews = [], next_id = 20\<rparr>"

section \<open>The relay and its registry\<close>

subsection \<open>Pushing changes only what was sent\<close>

lemma pushTo_frame:
  "clients (pushTo fr i w) = clients w"
  "store (pushTo fr i w) = store w"
  "timers (pushTo fr i w) = timers w"
  "readyState (sockets (pushTo fr i w) k) = readyState (sockets w k)"
  "ws_userId (sockets (pushTo fr i w) k) = ws_userId (sockets w k)"
  "ws_userType (sockets (pushTo fr i w) k) = ws_userType (sockets w k)"
  by (simp_all add: pushTo_def split: option.split)

lemma pushTo_sent:
  "sent (sockets (pushTo fr i w) k) =
     sent (sockets w k) @ (if clients w i = Some k \<and> readyState (sockets w k) = OPEN then [fr] else [])"
  by (auto simp add: pushTo_def split: option.split)

lemma forEach_pushTo_frame:
  "clients (forEach is (pushTo fr) w) = clients w"
  "store (forEach is (pushTo fr) w) = store w"
  "timers (forEach is (pushTo fr) w) = timers w"
  "readyState (sockets (forEach is (pushTo fr) w) k) = readyState (sockets w k)"
  "ws_userId (sockets (forEach is (pushTo fr) w) k) = ws_userId (sockets w k)"
  "ws_userType (sockets (forEach is (pushTo fr) w) k) = ws_userType (sockets w k)"
  by (induction "is" arbitrary: w; simp add: pushTo_frame)+

lemma forEach_pushTo_sent:
  "sent (sockets (forEach is (pushTo fr) w) k) =
     sent (sockets w k) @
       map (\<lambda>i. fr) (filter (\<lambda>i. clients w i = Some k \<and> readyState (sockets w k) = OPEN) is)"
proof (induction "is" arbitrary: w)
  case Nil
  show ?case by simp
next
  case (Cons i "is")
  show ?case
    by (simp add: Cons.IH pushTo_frame pushTo_sent)
qed

lemma on_message_auth:
  "tok \<noteq> [] \<Longrightarrow> on_message e ws (auth_frame tok) w = on_auth e ws tok w"
  by (simp add: on_message_def auth_frame_def)

subsection \<open>Registering twice\<close>

text \<open>
  Claim C2. When two authentication frames for the same user id are handled one after
  the other, on connections \<open>a\<close> and then \<open>b\<close>, the registry afterwards maps that user
  id to \<open>b\<close> and to nothing else: the second registration replaces the first. The
  registry never holds more than one connection for any user id. The replacement is
  silent: no socket changes its \<^verbatim>\<open>readyState\<close> and none is sent anything.
\<close>

theorem register_twice_keeps_latter:
  assumes "jwt_verify e t1 = Some u1" and "jwt_verify e t2 = Some u2"
    and "userId u1 = userId u2" and "t1 \<noteq> []" and "t2 \<noteq> []"
  shows "let w2 = on_message e b (auth_frame t2) (on_message e a (auth_frame t1) w)
         in clients w2 (userId u1) = Some b
          \<and> {c. clients w2 (userId u1) = Some c} = {b}
          \<and> (\<forall>i. card {c. clients w2 i = Some c} \<le> 1)
          \<and> (\<forall>k. readyState (sockets w2 k) = readyState (sockets w k)
                 \<and> sent (sockets w2 k) = sent (sockets w k))"
proof -
  define w2 where "w2 = on_message e b (auth_frame t2) (on_message e a (auth_frame t1) w)"
  have reg: "clients w2 (userId u1) = Some b"
    using assms by (simp add: w2_def on_message_auth on_auth_def)
  have one: "card {c. clients w2 i = Some c} \<le> 1" for i
  proof (cases "clients w2 i")
    case None
    then show ?thesis by simp
  next
    case (Some k)
    then have "{c. clients w2 i = Some c} = {k}" by auto
    then show ?thesis by simp
  qed
  have quiet: "readyState (sockets w2 k) = readyState (sockets w k)
                 \<and> sent (sockets w2 k) = sent (sockets w k)" for k
    using assms by (simp add: w2_def on_message_auth on_auth_def)
  from reg have "{c. clients w2 (userId u1) = Some c} = {b}" by auto
  with reg one quiet show ?thesis
    unfolding w2_def [symmetric] Let_def by blast
qed

theorem register_twice_keeps_latter_witness:
  "jwt_verify demo_env ''tokA'' = Some \<lparr>userId = 0, jwt_username = ''ann'', userType = ''student''\<rparr>
   \<and> ''tokA'' \<noteq> []
   \<and> (let w2 = on_message demo_env 4 (auth_frame ''tokA'')
                 (on_message demo_env 3 (auth_frame ''tokA'') (boot empty_db))
      in clients w2 0 = Some 4
       \<and> {c. clients w2 0 = Some c} = {4}
       \<and> (\<forall>i. card {c. clients w2 i = Some c} \<le> 1)
       \<and> (\<forall>k. readyState (sockets w2 k) = readyState (sockets (boot empty_db) k)
              \<and> sent (sockets w2 k) = sent (sockets (boot empty_db) k)))"
proof -
  have v: "jwt_verify demo_env ''tokA'' = Some \<lparr>userId = 0, jwt_username = ''ann'', userType = ''student''\<rparr>"
    by (simp add: demo_env_def)
  have n: "''tokA'' \<noteq> []" by simp
  show ?thesis
    using v n register_twice_keeps_latter [OF v v refl n n, of 4 3 "boot empty_db"]
    by simp
qed

text \<open>
  Claim C10. After connection \<open>a\<close> and then connection \<open>b\<close> have registered for the
  same user id, the registry maps the user id to \<open>b\<close>. The close of \<open>a\<close> then deletes
  the registry entry of that user id: the lookup finds nothing, although \<open>b\<close> is still
  open and still carries the user id.
\<close>

theorem superseded_close_unregisters_current:
  assumes "jwt_verify e t1 = Some u1" and "jwt_verify e t2 = Some u2"
    and "userId u1 = userId u2" and "t1 \<noteq> []" and "t2 \<noteq> []"
    and "a \<noteq> b" and "readyState (sockets w b) = OPEN"
  shows "let w2 = on_message e b (auth_frame t2) (on_message e a (auth_frame t1) w);
             w3 = on_close a w2
         in clients w2 (userId u1) = Some b
          \<and> clients w3 (userId u1) = None
          \<and> readyState (sockets w3 b) = OPEN
          \<and> ws_userId (sockets w3 b) = Some (userId u1)"
  using assms
  by (simp add: on_message_auth on_auth_def on_close_def Let_def)

theorem superseded_close_unregisters_current_witness:
  "jwt_verify demo_env ''tokA'' = Some \<lparr>userId = 0, jwt_username = ''ann'', userType = ''student''\<rparr>
   \<and> ''tokA'' \<noteq> [] \<and> (3::nat) \<noteq> 4 \<and> readyState (sockets (boot empty_db) 4) = OPEN
   \<and> (let w2 = on_message demo_env 4 (auth_frame ''tokA'')
                 (on_message demo_env 3 (auth_frame ''tokA'') (boot empty_db));
          w3 = on_close 3 w2
      in clients w2 0 = Some 4
       \<and> clients w3 0 = None
       \<and> readyState (sockets w3 4) = OPEN
       \<and> ws_userId (sockets w3 4) = Some 0)"
proof -
  have v: "jwt_verify demo_env ''tokA'' = Some \<lparr>userId = 0, jwt_username = ''ann'', userType = ''student''\<rparr>"
    by (simp add: demo_env_def)
  have n: "''tokA'' \<noteq> []" by simp
  have d: "(3::nat) \<noteq> 4" by simp
  have r: "readyState (sockets (boot empty_db) 4) = OPEN"
    by (simp add: boot_def fresh_socket_def)
  show ?thesis
    using v n d r superseded_close_unregisters_current [OF v v refl n n d r]
    by simp
qed

subsection \<open>A chat frame\<close>

lemma find_conversation_id:
  "findConversationById cid d = Some conv \<Longrightarrow> cid = Some (c_id conv)"
  by (auto simp add: findConversationById_def find_Some_iff split: option.splits)

lemma on_chat_dropped:
  "on_chat ws sender None w = w"
  "findConversationById (conversation_id p) (store w) = None \<Longrightarrow> on_chat ws sender (Some p) w = w"
  "\<not> truthy (content p) \<Longrightarrow> on_chat ws sender (Some p) w = w"
proof -
  show "on_chat ws sender None w = w"
    by (simp add: on_chat_def)
  show "findConversationById (conversation_id p) (store w) = None \<Longrightarrow>
        on_chat ws sender (Some p) w = w"
    by (simp add: on_chat_def)
  assume "\<not> truthy (content p)"
  then have "saveMessage (the (conversation_id p)) sender (content p) (store w) = Inl ValidationError"
    by (cases "content p") (simp_all add: saveMessage_def)
  then show "on_chat ws sender (Some p) w = w"
    by (simp add: on_chat_def split: option.splits)
qed

lemma on_chat_present:
  fixes sender :: oid and ws :: conn and w :: world and p :: chat_payload
  assumes "findConversationById (conversation_id p) (store w) = Some conv"
    and "content p = Some txt" and "txt \<noteq> []"
  defines "msg \<equiv> \<lparr>m_id = next_id (store w), m_conversation_id = c_id conv,
                    m_sender_id = sender, m_content = txt\<rparr>"
  defines "w' \<equiv> on_chat ws sender (Some p) w"
  shows "messages (store w') = messages (store w) @ [msg]"
    and "clients w' = clients w"
    and "sent (sockets w' k) = sent (sockets w k) @
           map (\<lambda>i. NewMessage msg)
             (filter (\<lambda>i. clients w i = Some k \<and> readyState (sockets w k) = OPEN)
                [sender, recipientId conv sender])"
proof -
  have cid: "conversation_id p = Some (c_id conv)"
    using assms(1) by (rule find_conversation_id)
  have sv: "saveMessage (c_id conv) sender (Some txt) (store w) =
              Inr (msg, (store w)\<lparr>messages := messages (store w) @ [msg],
                                  next_id := Suc (next_id (store w))\<rparr>)"
    using assms(3) by (simp add: saveMessage_def msg_def Let_def)
  show "messages (store w') = messages (store w) @ [msg]"
    using assms(1,2) sv cid
    by (simp add: w'_def on_chat_def Let_def forEach_pushTo_frame pushTo_frame)
  show "clients w' = clients w"
    using assms(1,2) sv cid
    by (simp add: w'_def on_chat_def Let_def forEach_pushTo_frame pushTo_frame)
  show "sent (sockets w' k) = sent (sockets w k) @
           map (\<lambda>i. NewMessage msg)
             (filter (\<lambda>i. clients w i = Some k \<and> readyState (sockets w k) = OPEN)
                [sender, recipientId conv sender])"
    using assms(1,2) sv cid
    by (simp add: w'_def on_chat_def Let_def pushTo_frame pushTo_sent)
qed

text \<open>
  Claim C1, amended. A chat frame arrives on a connection that has authenticated as
  \<open>sender\<close>. If the frame has no payload, if no conversation has the payload's id, or if
  the payload has no content or an empty one, the state is unchanged: nothing is stored
  and nothing is sent. If the conversation exists and the content is not empty, exactly
  one message (this conversation, this sender, this content) is appended to the stored
  messages; the recipient is the conversation's landlord when the sender is its student
  and its student otherwise, which is the other participant whenever the sender is one
  of two distinct participants; and every socket receives the new message once for each
  of the two ids, sender and recipient, that the registry maps to it while it is open,
  and nothing else. The registry itself is unchanged.
\<close>

theorem chat_frame_relay:
  assumes "ws_userId (sockets w ws) = Some sender"
    and "data_type data = Some ''message''"
  shows "(payload data = None \<longrightarrow> on_message e ws (Some data) w = w)
       \<and> (\<forall>p. payload data = Some p \<longrightarrow>
            (findConversationById (conversation_id p) (store w) = None
               \<longrightarrow> on_message e ws (Some data) w = w)
          \<and> (\<not> truthy (content p) \<longrightarrow> on_message e ws (Some data) w = w)
          \<and> (\<forall>conv txt. findConversationById (conversation_id p) (store w) = Some conv
                 \<and> content p = Some txt \<and> txt \<noteq> [] \<longrightarrow>
               (let w' = on_message e ws (Some data) w;
                    msg = \<lparr>m_id = next_id (store w), m_conversation_id = c_id conv,
                            m_sender_id = sender, m_content = txt\<rparr>;
                    r = (if c_student_id conv = sender then c_landlord_id conv
                         else c_student_id conv)
                in messages (store w') = messages (store w) @ [msg]
                 \<and> clients w' = clients w
                 \<and> (\<forall>k. sent (sockets w' k) = sent (sockets w k) @
                           map (\<lambda>i. NewMessage msg)
                             (filter (\<lambda>i. clients w i = Some k \<and> readyState (sockets w k) = OPEN)
                                [sender, r]))
                 \<and> (sender \<in> {c_student_id conv, c_landlord_id conv}
                      \<and> c_student_id conv \<noteq> c_landlord_id conv
                     \<longrightarrow> r \<in> {c_student_id conv, c_landlord_id conv} \<and> r \<noteq> sender))))"
proof -
  have disp: "on_message e ws (Some data) w = on_chat ws sender (payload data) w"
    using assms by (simp add: on_message_def)
  have none: "payload data = None \<longrightarrow> on_message e ws (Some data) w = w"
    by (simp add: disp on_chat_dropped)
  have dropped: "(findConversationById (conversation_id p) (store w) = None
               \<longrightarrow> on_message e ws (Some data) w = w)
          \<and> (\<not> truthy (content p) \<longrightarrow> on_message e ws (Some data) w = w)"
    if "payload data = Some p" for p
    by (simp add: disp that on_chat_dropped)
  have present: "let w' = on_message e ws (Some data) w;
                    msg = \<lparr>m_id = next_id (store w), m_conversation_id = c_id conv,
                            m_sender_id = sender, m_content = str\<rparr>;
                    r = (if c_student_id conv = sender then c_landlord_id conv
                         else c_student_id conv)
                in messages (store w') = messages (store w) @ [msg]
                 \<and> clients w' = clients w
                 \<and> (\<forall>k. sent (sockets w' k) = sent (sockets w k) @
                           map (\<lambda>i. NewMessage msg)
                             (filter (\<lambda>i. clients w i = Some k \<and> readyState (sockets w k) = OPEN)
                                [sender, r]))
                 \<and> (sender \<in> {c_student_id conv, c_landlord_id conv}
                      \<and> c_student_id conv \<noteq> c_landlord_id conv
                     \<longrightarrow> r \<in> {c_student_id conv, c_landlord_id conv} \<and> r \<noteq> sender)"
    if "payload data = Some p"
      and "findConversationById (conversation_id p) (store w) = Some conv"
      and "content p = Some str" and "str \<noteq> []"
    for p conv and str :: string
  proof -
    note q = on_chat_present [OF that(2) that(3) that(4), of ws sender]
    have r: "recipientId conv sender =
               (if c_student_id conv = sender then c_landlord_id conv else c_student_id conv)"
      by (simp add: recipientId_def)
    show ?thesis
      unfolding Let_def disp that(1) r [symmetric]
      using q by (auto simp add: recipientId_def)
  qed
  from none dropped present show ?thesis by blast
qed

lemma demo_find: "findConversationById (Some 10) (store demo_world) = Some demo_conv"
  by (simp add: demo_world_def findConversationById_def demo_conv_def empty_db_def)

lemma demo_find99: "findConversationById (Some 99) (store demo_world) = None"
  by (simp add: demo_world_def findConversationById_def demo_conv_def empty_db_def)

theorem chat_frame_relay_witness:
  "ws_userId (sockets demo_world 3) = Some 0
   \<and> findConversationById (Some 99) (store demo_world) = None
   \<and> on_message demo_env 3 (chat_frame 99 ''hi'') demo_world = demo_world
   \<and> on_message demo_env 3 (chat_frame 10 []) demo_world = demo_world
   \<and> findConversationById (Some 10) (store demo_world) = Some demo_conv
   \<and> messages (store (on_message demo_env 3 (chat_frame 10 ''hi'') demo_world)) =
        [\<lparr>m_id = 20, m_conversation_id = 10, m_sender_id = 0, m_content = ''hi''\<rparr>]
   \<and> sent (sockets (on_message demo_env 3 (chat_frame 10 ''hi'') demo_world) 3) =
        [NewMessage \<lparr>m_id = 20, m_conversation_id = 10, m_sender_id = 0, m_content = ''hi''\<rparr>]
   \<and> sent (sockets (on_message demo_env 3 (chat_frame 10 ''hi'') demo_world) 4) = []"
proof -
  have a: "ws_userId (sockets demo_world 3) = Some 0"
    by (simp add: demo_world_def)
  let ?d99 = "\<lparr>data_type = Some ''message'', token = None,
              payload = Some \<lparr>conversation_id = Some 99, content = Some ''hi''\<rparr>\<rparr>"
  let ?d10 = "\<lparr>data_type = Some ''message'', token = None,
              payload = Some \<lparr>conversation_id = Some 10, content = Some ''hi''\<rparr>\<rparr>"
  let ?d0 = "\<lparr>data_type = Some ''message'', token = None,
              payload = Some \<lparr>conversation_id = Some 10, content = Some []\<rparr>\<rparr>"
  have f1: "chat_frame 99 ''hi'' = Some ?d99" and f2: "chat_frame 10 ''hi'' = Some ?d10"
    and f0: "chat_frame 10 [] = Some ?d0"
    by (simp_all add: chat_frame_def)
  have s: "store demo_world = empty_db\<lparr>conversations := [demo_conv], next_id := 20\<rparr>"
          "clients demo_world = [0 \<mapsto> 3, 8 \<mapsto> 4]"
          "sent (sockets demo_world 3) = []" "sent (sockets demo_world 4) = []"
          "readyState (sockets demo_world 3) = OPEN" "readyState (sockets demo_world 4) = 3"
    by (simp_all add: demo_world_def)
  have n: "''hi'' \<noteq> []" by simp
  have absent: "on_message demo_env 3 (chat_frame 99 ''hi'') demo_world = demo_world"
    unfolding f1
    using chat_frame_relay [OF a, of ?d99 demo_env] demo_find99 by simp
  have empty: "on_message demo_env 3 (chat_frame 10 []) demo_world = demo_world"
    unfolding f0
    using chat_frame_relay [OF a, of ?d0 demo_env] by simp
  have p10: "payload ?d10 = Some \<lparr>conversation_id = Some 10, content = Some ''hi''\<rparr>"
    by simp
  have t10: "data_type ?d10 = Some ''message''"
    by simp
  have c10: "findConversationById (conversation_id \<lparr>conversation_id = Some 10, content = Some ''hi''\<rparr>)
               (store demo_world) = Some demo_conv
             \<and> content \<lparr>conversation_id = Some 10, content = Some ''hi''\<rparr> = Some ''hi''
             \<and> ''hi'' \<noteq> []"
    by (simp add: demo_find)
  note present =
    chat_frame_relay [OF a t10, of demo_env, THEN conjunct2, THEN spec, THEN mp, OF p10,
      THEN conjunct2, THEN conjunct2, THEN spec, THEN spec, THEN mp, OF c10, unfolded Let_def,
      folded f2]
  note msgs = present [THEN conjunct1]
  note sent1 = present [THEN conjunct2, THEN conjunct2, THEN conjunct1, THEN spec, of 3]
  note sent2 = present [THEN conjunct2, THEN conjunct2, THEN conjunct1, THEN spec, of 4]
  show ?thesis
    using absent empty msgs sent1 sent2
    by (simp add: a s demo_conv_def empty_db_def OPEN_def findConversationById_def)
qed

text \<open>
  The claim as stated fails where one user is both participants of a conversation, which
  \<^verbatim>\<open>POST /api/conversations\<close> lets a user create by naming itself as the landlord:
  the recipient that the handler resolves is the sender, and the sender's socket is sent
  the message twice. It also fails for a frame with an empty content: the conversation
  is present and no message is persisted.
\<close>

theorem counterparty_is_sender_counterexample:
  "conversations (store self_chat_world) =
     [\<lparr>c_id = 1, c_property_id = 5, c_student_id = 0, c_landlord_id = 0\<rparr>]
   \<and> ws_userId (sockets self_chat_world 3) = Some 0
   \<and> recipientId \<lparr>c_id = 1, c_property_id = 5, c_student_id = 0, c_landlord_id = 0\<rparr> 0 = 0
   \<and> sent (sockets (on_message demo_env 3 (chat_frame 1 ''hi'') self_chat_world) 3) =
        [NewMessage \<lparr>m_id = 2, m_conversation_id = 1, m_sender_id = 0, m_content = ''hi''\<rparr>,
         NewMessage \<lparr>m_id = 2, m_conversation_id = 1, m_sender_id = 0, m_content = ''hi''\<rparr>]
   \<and> messages (store self_chat_world) = []
   \<and> messages (store (on_message demo_env 3 (chat_frame 1 []) self_chat_world)) = []"
  by code_simp

section \<open>Favorites and reviews\<close>

lemma post_favorites_duplicate:
  "list_ex (\<lambda>f. f_user_id f = userId u \<and> f_property_id f = p) (favorites (store w)) \<Longrightarrow>
   post_favorites u (Some p) w = (reply 500 (JMsg ''Error adding favorite''), w)"
  by (simp add: post_favorites_def saveFavorite_def)

text \<open>
  Claim C3, at the failing input. The handler of \<^verbatim>\<open>POST /api/favorites\<close> answers
  201 or 500 and nothing else, whatever the request. The student ann already has a
  favorite for property 5 and posts it again with her token: the answer is the status
  500 with the message \<^verbatim>\<open>Error adding favorite\<close>, the same as for any other
  failure of the handler, and not a 409; the stored favorites are unchanged, so no
  duplicate is created.
\<close>

theorem duplicate_favorite_generic_error:
  "status (fst (post_favorites u pid w)) \<in> {201, 500}
   \<and> favorites (store fav_world) = [\<lparr>f_id = 1, f_user_id = 0, f_property_id = 5\<rparr>]
   \<and> fst (authenticateToken demo_env (Some ''Bearer tokA'') (\<lambda>u. post_favorites u (Some 5)) fav_world)
       = \<lparr>status = 500, body = JMsg ''Error adding favorite''\<rparr>
   \<and> favorites (store (snd (authenticateToken demo_env (Some ''Bearer tokA'')
         (\<lambda>u. post_favorites u (Some 5)) fav_world)))
       = [\<lparr>f_id = 1, f_user_id = 0, f_property_id = 5\<rparr>]"
proof -
  have never: "status (fst (post_favorites u pid w)) \<in> {201, 500}"
    by (simp add: post_favorites_def saveNotification_def Let_def reply_def
          split: sum.splits option.splits prod.splits)
  have again: "favorites (store fav_world) = [\<lparr>f_id = 1, f_user_id = 0, f_property_id = 5\<rparr>]
   \<and> fst (authenticateToken demo_env (Some ''Bearer tokA'') (\<lambda>u. post_favorites u (Some 5)) fav_world)
       = \<lparr>status = 500, body = JMsg ''Error adding favorite''\<rparr>
   \<and> favorites (store (snd (authenticateToken demo_env (Some ''Bearer tokA'')
         (\<lambda>u. post_favorites u (Some 5)) fav_world)))
       = [\<lparr>f_id = 1, f_user_id = 0, f_property_id = 5\<rparr>]"
    by code_simp
  from never again show ?thesis by blast
qed

subsection \<open>One review per property and user\<close>

lemma has_review_keys: "has_review pid uid d \<longleftrightarrow> (pid, uid) \<in> set (review_keys d)"
  by (auto simp add: has_review_def review_keys_def list_ex_iff)

lemma saveReview_cases:
  "saveReview pid uid rt cm d = Inl ValidationError
   \<or> saveReview pid uid rt cm d = Inl DuplicateKey \<and> has_review pid uid d
   \<or> (\<exists>r. saveReview pid uid rt cm d =
            Inr (r, d\<lparr>reviews := reviews d @ [r], next_id := Suc (next_id d)\<rparr>)
          \<and> r_property_id r = pid \<and> r_user_id r = uid \<and> \<not> has_review pid uid d)"
  by (simp add: saveReview_def has_review_def Let_def)

lemma post_review_keys:
  "review_keys (snd (post_review u pid rt cm d)) = review_keys d
   \<or> review_keys (snd (post_review u pid rt cm d)) = review_keys d @ [(pid, userId u)]
      \<and> (pid, userId u) \<notin> set (review_keys d)"
  using saveReview_cases [of pid "userId u" "the rt" "the cm" d]
  by (auto simp add: post_review_def review_keys_def has_review_keys [unfolded review_keys_def])

lemma post_review_distinct:
  "distinct (review_keys d) \<Longrightarrow> distinct (review_keys (snd (post_review u pid rt cm d)))"
  using post_review_keys [of u pid rt cm d] by auto

lemma post_review_second:
  assumes "has_review pid (userId u) d"
  shows "snd (post_review u pid rt cm d) = d"
  using assms saveReview_cases [of pid "userId u" "the rt" "the cm" d]
  by (auto simp add: post_review_def)

lemma post_review_not_student:
  "userType u \<noteq> ''student'' \<Longrightarrow>
   fst (post_review u pid rt cm d) = reply 403 (JMsg ''Only students can leave reviews.'')"
  by (simp add: post_review_def)

lemma post_review_missing:
  assumes "userType u = ''student''"
    and "rt = None \<or> rt = Some 0 \<or> cm = None \<or> cm = Some []"
  shows "fst (post_review u pid rt cm d) = reply 400 (JMsg ''Rating and comment are required.'')"
  using assms by (auto simp add: post_review_def)

lemma post_review_invalid:
  assumes "userType u = ''student''" and "n \<noteq> 0" and "c \<noteq> []"
    and "n < 1 \<or> 5 < n \<or> 1000 < js_length c"
  shows "fst (post_review u pid (Some n) (Some c) d) =
           reply 500 (JMsg ''Server error posting review.'')"
  using assms by (auto simp add: post_review_def saveReview_def)

lemma post_review_conflict:
  assumes "has_review pid (userId u) d" and "userType u = ''student''"
    and "1 \<le> n" and "n \<le> 5" and "c \<noteq> []" and "js_length c \<le> 1000"
  shows "fst (post_review u pid (Some n) (Some c) d) =
           reply 409 (JMsg ''You have already reviewed this property.'')"
  using assms by (simp add: post_review_def saveReview_def has_review_def)

subsection \<open>What each event does to a collection\<close>

lemma saveMessage_other:
  "saveMessage c s t d = Inr (m, d1) \<Longrightarrow>
   reviews d1 = reviews d \<and> users d1 = users d"
  by (auto simp add: saveMessage_def Let_def split: option.splits if_splits)

lemma on_store_store: "store (on_store h w) = snd (h (store w))"
  by (simp add: on_store_def)

lemma behind_auth_store:
  "store (behind_auth e ah h w) = store w \<or> (\<exists>u. store (behind_auth e ah h w) = snd (h u (store w)))"
  by (auto simp add: behind_auth_def on_store_def split: option.splits)

lemma authenticateToken_cases:
  "authenticateToken e ah h s = (reply 401 JEmpty, s)
   \<or> authenticateToken e ah h s = (reply 403 JEmpty, s)
   \<or> (\<exists>u tok. bearer_token ah = Some tok \<and> jwt_verify e tok = Some u
         \<and> authenticateToken e ah h s = h u s)"
  by (auto simp add: authenticateToken_def split: option.splits)

lemma on_close_store: "store (on_close ws w) = store w"
  by (simp add: on_close_def Let_def split: option.splits)

lemma on_message_reviews: "reviews (store (on_message e ws raw w)) = reviews (store w)"
  by (auto simp add: on_message_def on_auth_def ws_close_def on_chat_def Let_def
        forEach_pushTo_frame pushTo_frame dest: saveMessage_other
        split: option.splits sum.splits)

lemma on_timer_reviews: "reviews (store (on_timer t w)) = reviews (store w)"
  by (auto simp add: on_timer_def forEach_pushTo_frame dest: saveMessage_other
        split: sum.splits)

lemma ask_ai_reviews: "reviews (store (snd (ask_ai e i q w))) = reviews (store w)"
  by (auto simp add: ask_ai_def forEach_pushTo_frame pushTo_frame dest: saveMessage_other
        split: option.splits sum.splits ai_result.splits)

lemma post_favorites_reviews: "reviews (store (snd (post_favorites u pid w))) = reviews (store w)"
  by (auto simp add: post_favorites_def saveFavorite_def saveNotification_def Let_def pushTo_frame
        split: option.splits sum.splits)

lemma db_handlers_reviews:
  "reviews (snd (signup e m pw ut n d)) = reviews d"
  "reviews (snd (upload_verification uid doc d)) = reviews d"
  "reviews (snd (verify_action uid action d)) = reviews d"
  "reviews (snd (post_properties e u b files d)) = reviews d"
  "reviews (snd (put_property u i b d)) = reviews d"
  "reviews (snd (delete_property u i d)) = reviews d"
  "reviews (snd (post_view i d)) = reviews d"
  "reviews (snd (delete_favorite u i d)) = reviews d"
  "reviews (snd (post_conversations u pid lid d)) = reviews d"
  "reviews (snd (change_password e u cur new d)) = reviews d"
  "reviews (snd (update_username e u nn d)) = reviews d"
  "reviews (snd (upload_picture e u file d)) = reviews d"
  "reviews (snd (update_bio u bb d)) = reviews d"
  "reviews (snd (delete_account e u pw' d)) = reviews d"
  "reviews (snd (mark_read u d)) = reviews d"
  by (auto simp add: signup_def saveUser_def upload_verification_def verify_action_def
        post_properties_def saveProperty_def put_property_def delete_property_def post_view_def
        delete_favorite_def post_conversations_def change_password_def update_username_def
        upload_picture_def update_bio_def delete_account_def mark_read_def updateUser_def Let_def
        split: option.splits sum.splits)

lemma step_review_keys:
  "review_keys (store (step e ev w)) = review_keys (store w)
   \<or> (\<exists>u pid rt cm. review_keys (store (step e ev w)) =
          review_keys (snd (post_review u pid rt cm (store w))))"
proof (cases ev)
  case (PostReview h i rt cm)
  from behind_auth_store [of e h "\<lambda>u. post_review u i rt cm" w]
  show ?thesis
    unfolding PostReview step.simps
    by (elim disjE exE; simp; blast?)
next
  case (PostFavorites h pid)
  then show ?thesis
    using authenticateToken_cases [of e h "\<lambda>u. post_favorites u pid" w]
    by (auto simp add: review_keys_def post_favorites_reviews)
next
  case (AskAi h i q)
  then show ?thesis
    using authenticateToken_cases [of e h "\<lambda>u. ask_ai e i q" w]
    by (auto simp add: review_keys_def ask_ai_reviews)
next
  case TimerFires
  then show ?thesis
    by (auto simp add: review_keys_def on_timer_reviews split: list.splits)
qed (auto simp add: review_keys_def on_message_reviews on_close_store on_store_store
       db_handlers_reviews behind_auth_def split: option.splits)

lemma step_distinct_reviews:
  "distinct (review_keys (store w)) \<Longrightarrow> distinct (review_keys (store (step e ev w)))"
  using step_review_keys [of e ev w] post_review_distinct by auto

lemma run_distinct_reviews:
  "distinct (review_keys (store w)) \<Longrightarrow> distinct (review_keys (store (run e evs w)))"
  by (induction evs arbitrary: w) (simp_all add: step_distinct_reviews)

text \<open>
  Claim C4, amended. When a review of the property by the caller is already stored, a
  further submission never changes the store, and its answer is decided by the checks
  in the order the handler makes them: 403 for a caller who is not a student; else 400
  when the rating or the comment is missing, a rating of 0 and an empty comment
  counting as missing; else 500 when the rating is below 1 or above 5 or the comment
  has a \<^verbatim>\<open>length\<close> above 1000, which the schema refuses before the insert; else 409
  with the message that the property has already been reviewed. Whatever sequence of
  events the server handles, starting from the empty database, the stored reviews hold
  at most one review per pair of property and user.
\<close>

theorem second_review_rejected:
  assumes "list_ex (\<lambda>r. r_property_id r = pid \<and> r_user_id r = userId u) (reviews d)"
  shows "snd (post_review u pid rt cm d) = d
       \<and> (userType u \<noteq> ''student''
          \<longrightarrow> fst (post_review u pid rt cm d) =
                reply 403 (JMsg ''Only students can leave reviews.''))
       \<and> (userType u = ''student'' \<and> (rt = None \<or> rt = Some 0 \<or> cm = None \<or> cm = Some [])
          \<longrightarrow> fst (post_review u pid rt cm d) =
                reply 400 (JMsg ''Rating and comment are required.''))
       \<and> (userType u = ''student'' \<and> rt = Some n \<and> n \<noteq> 0 \<and> cm = Some c \<and> c \<noteq> []
            \<and> (n < 1 \<or> 5 < n \<or> 1000 < js_length c)
          \<longrightarrow> fst (post_review u pid rt cm d) =
                reply 500 (JMsg ''Server error posting review.''))
       \<and> (userType u = ''student'' \<and> rt = Some n \<and> 1 \<le> n \<and> n \<le> 5
            \<and> cm = Some c \<and> c \<noteq> [] \<and> js_length c \<le> 1000
          \<longrightarrow> fst (post_review u pid rt cm d) =
                reply 409 (JMsg ''You have already reviewed this property.''))
       \<and> distinct (map (\<lambda>r. (r_property_id r, r_user_id r))
                    (reviews (store (run e evs (boot empty_db)))))"
proof -
  from assms have h: "has_review pid (userId u) d"
    by (simp add: has_review_def)
  have inv: "distinct (review_keys (store (run e evs (boot empty_db))))"
    by (rule run_distinct_reviews) (simp add: review_keys_def boot_def empty_db_def)
  have unchanged: "snd (post_review u pid rt cm d) = d"
    by (rule post_review_second [OF h])
  have invalid: "fst (post_review u pid rt cm d) = reply 500 (JMsg ''Server error posting review.'')"
    if "userType u = ''student''" "rt = Some n" "n \<noteq> 0" "cm = Some c" "c \<noteq> []"
       "n < 1 \<or> 5 < n \<or> 1000 < js_length c"
    using that post_review_invalid [of u n c pid d] by simp
  have conflict: "fst (post_review u pid rt cm d) =
                    reply 409 (JMsg ''You have already reviewed this property.'')"
    if "userType u = ''student''" "rt = Some n" "1 \<le> n" "n \<le> 5" "cm = Some c" "c \<noteq> []"
       "js_length c \<le> 1000"
    using that post_review_conflict [OF h, of n c] by simp
  from unchanged post_review_not_student [of u pid rt cm d] post_review_missing [of u rt cm pid d]
    invalid conflict inv [unfolded review_keys_def]
  show ?thesis by blast
qed

theorem second_review_rejected_witness:
  "list_ex (\<lambda>r. r_property_id r = 5 \<and> r_user_id r = userId ann) (reviews (store review_world))
   \<and> post_review ann 5 (Some 5) (Some ''again'') (store review_world) =
        (reply 409 (JMsg ''You have already reviewed this property.''), store review_world)
   \<and> post_review ann 5 (Some 9) (Some ''again'') (store review_world) =
        (reply 500 (JMsg ''Server error posting review.''), store review_world)
   \<and> post_review ann 5 None (Some ''again'') (store review_world) =
        (reply 400 (JMsg ''Rating and comment are required.''), store review_world)
   \<and> list_ex (\<lambda>r. r_property_id r = 5 \<and> r_user_id r = userId bob) (reviews imported_review_db)
   \<and> post_review bob 5 (Some 5) (Some ''again'') imported_review_db =
        (reply 403 (JMsg ''Only students can leave reviews.''), imported_review_db)
   \<and> distinct (map (\<lambda>r. (r_property_id r, r_user_id r))
        (reviews (store (run demo_env
           [ann_signup, PostReview (Some ''Bearer tokA'') 5 (Some 4) (Some ''good'')]
           (boot empty_db)))))"
proof -
  have h: "list_ex (\<lambda>r. r_property_id r = 5 \<and> r_user_id r = userId ann)
             (reviews (store review_world))"
    by code_simp
  have hb: "list_ex (\<lambda>r. r_property_id r = 5 \<and> r_user_id r = userId bob)
              (reviews imported_review_db)"
    by code_simp
  have s: "userType ann = ''student''" "userType bob \<noteq> ''student''"
    by (simp_all add: ann_def bob_def)
  have l: "js_length ''again'' \<le> 1000"
    by (simp add: js_length_def)
  note t = second_review_rejected [OF h, of _ _ _ _ demo_env
             "[ann_signup, PostReview (Some ''Bearer tokA'') 5 (Some 4) (Some ''good'')]"]
  note conflict = t [of "Some 5" "Some ''again''" 5 "''again''"]
  note invalid = t [of "Some 9" "Some ''again''" 9 "''again''"]
  note missing = t [of None "Some ''again''" 0 "[]"]
  note refused = second_review_rejected [OF hb, of "Some 5" "Some ''again''" 5 "''again''"
                   demo_env "[]"]
  have c409: "post_review ann 5 (Some 5) (Some ''again'') (store review_world) =
        (reply 409 (JMsg ''You have already reviewed this property.''), store review_world)"
    using conflict s l by (simp add: prod_eq_iff)
  have c500: "post_review ann 5 (Some 9) (Some ''again'') (store review_world) =
        (reply 500 (JMsg ''Server error posting review.''), store review_world)"
    using invalid s by (simp add: prod_eq_iff)
  have c400: "post_review ann 5 None (Some ''again'') (store review_world) =
        (reply 400 (JMsg ''Rating and comment are required.''), store review_world)"
    using missing s by (simp add: prod_eq_iff)
  have c403: "post_review bob 5 (Some 5) (Some ''again'') imported_review_db =
        (reply 403 (JMsg ''Only students can leave reviews.''), imported_review_db)"
    using refused s by (simp add: prod_eq_iff)
  from conflict have inv: "distinct (map (\<lambda>r. (r_property_id r, r_user_id r))
        (reviews (store (run demo_env
           [ann_signup, PostReview (Some ''Bearer tokA'') 5 (Some 4) (Some ''good'')]
           (boot empty_db)))))"
    by blast
  from h hb c409 c500 c400 c403 inv show ?thesis by blast
qed

text \<open>
  The claim as stated fails for a second submission that does not pass the checks made
  before the insert: with a rating of 9 the schema's validation fails and the answer is
  the generic 500; without a comment the answer is 400.
\<close>

theorem second_review_other_status_counterexample:
  "list_ex (\<lambda>r. r_property_id r = 5 \<and> r_user_id r = 0) (reviews (store review_world))
   \<and> fst (authenticateToken demo_env (Some ''Bearer tokA'')
            (\<lambda>u. post_review u 5 (Some 9) (Some ''great'')) (store review_world))
       = \<lparr>status = 500, body = JMsg ''Server error posting review.''\<rparr>
   \<and> fst (authenticateToken demo_env (Some ''Bearer tokA'')
            (\<lambda>u. post_review u 5 (Some 4) None) (store review_world))
       = \<lparr>status = 400, body = JMsg ''Rating and comment are required.''\<rparr>"
  by code_simp

section \<open>Editing and deleting a property\<close>

lemma route_put_auth:
  "bearer_token h = Some tok \<Longrightarrow> jwt_verify e tok = Some u \<Longrightarrow>
   route_put_property e h i b d = put_property u i b d"
  by (simp add: route_put_property_def authenticateToken_def)

lemma route_delete_auth:
  "bearer_token h = Some tok \<Longrightarrow> jwt_verify e tok = Some u \<Longrightarrow>
   route_delete_property e h i d = delete_property u i d"
  by (simp add: route_delete_property_def authenticateToken_def)

text \<open>
  Claim C5. For a stored property and a request with a valid token, the update and the
  deletion answer 200 exactly when the caller's user id is the property's stored
  \<^verbatim>\<open>landlord_id\<close>; for every other caller both answer 403 with the message
  \<^verbatim>\<open>User not authorized\<close> and leave the store, hence the property, unchanged.
\<close>

theorem only_owner_edits_or_deletes:
  assumes "findPropertyById i d = Some p"
    and "bearer_token h = Some tok" and "jwt_verify e tok = Some u"
  shows "(userId u \<noteq> landlord_id p \<longrightarrow>
            route_put_property e h i b d = (reply 403 (JMsg ''User not authorized''), d)
          \<and> route_delete_property e h i d = (reply 403 (JMsg ''User not authorized''), d))
       \<and> (status (fst (route_put_property e h i b d)) = 200 \<longleftrightarrow> userId u = landlord_id p)
       \<and> (status (fst (route_delete_property e h i d)) = 200 \<longleftrightarrow> userId u = landlord_id p)"
  using assms
  by (simp add: route_put_auth [OF assms(2,3)] route_delete_auth [OF assms(2,3)]
        put_property_def delete_property_def reply_def Let_def)

theorem only_owner_edits_or_deletes_witness:
  "findPropertyById 5 demo_db = Some demo_property
   \<and> bearer_token (Some ''Bearer tokA'') = Some ''tokA''
   \<and> jwt_verify demo_env ''tokA'' = Some ann
   \<and> bearer_token (Some ''Bearer tokB'') = Some ''tokB''
   \<and> jwt_verify demo_env ''tokB'' = Some bob
   \<and> route_put_property demo_env (Some ''Bearer tokA'') 5 rename_body demo_db =
        (reply 403 (JMsg ''User not authorized''), demo_db)
   \<and> route_delete_property demo_env (Some ''Bearer tokA'') 5 demo_db =
        (reply 403 (JMsg ''User not authorized''), demo_db)
   \<and> status (fst (route_put_property demo_env (Some ''Bearer tokB'') 5 rename_body demo_db)) = 200
   \<and> status (fst (route_delete_property demo_env (Some ''Bearer tokB'') 5 demo_db)) = 200"
proof -
  have f: "findPropertyById 5 demo_db = Some demo_property"
    by (simp add: findPropertyById_def demo_db_def demo_property_def empty_db_def)
  have ta: "bearer_token (Some ''Bearer tokA'') = Some ''tokA''"
    by (simp add: bearer_token_def)
  have tb: "bearer_token (Some ''Bearer tokB'') = Some ''tokB''"
    by (simp add: bearer_token_def)
  have va: "jwt_verify demo_env ''tokA'' = Some ann"
    by (simp add: demo_env_def ann_def)
  have vb: "jwt_verify demo_env ''tokB'' = Some bob"
    by (simp add: demo_env_def bob_def)
  have ida: "userId ann \<noteq> landlord_id demo_property"
    by (simp add: ann_def demo_property_def)
  have idb: "userId bob = landlord_id demo_property"
    by (simp add: bob_def demo_property_def)
  note a = only_owner_edits_or_deletes [OF f ta va, of rename_body]
  note b = only_owner_edits_or_deletes [OF f tb vb, of rename_body]
  from a b ida idb f ta tb va vb show ?thesis by simp
qed

section \<open>The verification state\<close>

lemma same_vstate_users: "users d' = users d \<Longrightarrow> same_vstate d d'"
  by (auto simp add: same_vstate_def findUserById_def)

lemma same_vstate_refl: "same_vstate d d"
  by (simp add: same_vstate_users)

lemma find_update_first:
  assumes "\<And>x. u_id (f x) = u_id x" and "\<And>x. vstate (f x) = vstate x"
  shows "map_option vstate (find (\<lambda>u. u_id u = i) (update_first (\<lambda>u. u_id u = j) f xs)) =
         map_option vstate (find (\<lambda>u. u_id u = i) xs)"
  by (induction xs) (auto simp add: assms)

lemma same_vstate_updateUser:
  assumes "\<And>x. u_id (f x) = u_id x" and "\<And>x. vstate (f x) = vstate x"
  shows "same_vstate d (updateUser j f d)"
  unfolding same_vstate_def
proof (intro allI impI)
  fix i usr usr'
  assume a: "findUserById i d = Some usr \<and> findUserById i (updateUser j f d) = Some usr'"
  from find_update_first [of f i j "users d", OF assms] a
  show "vstate usr' = vstate usr"
    by (simp add: findUserById_def updateUser_def)
qed

lemma find_delete_first:
  "distinct (map u_id xs) \<Longrightarrow>
   find (\<lambda>u. u_id u = i) (delete_first (\<lambda>u. u_id u = j) xs) =
     (if i = j then None else find (\<lambda>u. u_id u = i) xs)"
proof (induction xs)
  case Nil
  show ?case by simp
next
  case (Cons x xs)
  then show ?case
    by (auto simp add: find_None_iff image_iff)
qed

lemma find_append_old:
  "find P xs = Some x \<Longrightarrow> find P (xs @ ys) = Some x"
  by (induction xs) (auto split: if_splits)

lemma same_vstate_signup: "same_vstate d (snd (signup e m pw ut n d))"
  by (auto simp add: same_vstate_def signup_def saveUser_def findUserById_def Let_def
        find_append_old split: option.splits)

lemma same_vstate_profile:
  "same_vstate d (snd (change_password e u cur new d))"
  "same_vstate d (snd (update_username e u nn d))"
  "same_vstate d (snd (upload_picture e u file d))"
  "same_vstate d (snd (update_bio u bb d))"
  by (auto simp add: change_password_def update_username_def upload_picture_def update_bio_def
        Let_def vstate_def same_vstate_users intro!: same_vstate_updateUser
        split: option.splits)

lemma same_vstate_delete_account:
  assumes "distinct (map u_id (users d))"
  shows "same_vstate d (snd (delete_account e u pw d))"
proof -
  have "users (snd (delete_account e u pw d)) = users d
        \<or> users (snd (delete_account e u pw d)) = delete_first (\<lambda>x. u_id x = userId u) (users d)"
    by (auto simp add: delete_account_def Let_def split: option.splits)
  then show ?thesis
  proof
    assume "users (snd (delete_account e u pw d)) = users d"
    then show ?thesis by (rule same_vstate_users)
  next
    assume del: "users (snd (delete_account e u pw d)) =
                   delete_first (\<lambda>x. u_id x = userId u) (users d)"
    show ?thesis
      unfolding same_vstate_def findUserById_def del find_delete_first [OF assms]
      by (auto split: if_splits)
  qed
qed

lemma db_handlers_users:
  "users (snd (post_properties e u b files d)) = users d"
  "users (snd (put_property u i b d)) = users d"
  "users (snd (delete_property u i d)) = users d"
  "users (snd (post_view i d)) = users d"
  "users (snd (delete_favorite u i d)) = users d"
  "users (snd (post_conversations u pid lid d)) = users d"
  "users (snd (post_review u i rt cm d)) = users d"
  "users (snd (mark_read u d)) = users d"
  by (auto simp add: post_properties_def saveProperty_def put_property_def delete_property_def
        post_view_def delete_favorite_def post_conversations_def post_review_def saveReview_def
        mark_read_def Let_def split: option.splits sum.splits)

lemma world_handlers_users:
  "users (store (on_message e ws raw w)) = users (store w)"
  "users (store (on_close ws w)) = users (store w)"
  "users (store (on_timer t w)) = users (store w)"
  "users (store (snd (ask_ai e i q w))) = users (store w)"
  "users (store (snd (post_favorites u pid w))) = users (store w)"
  by (auto simp add: on_message_def on_auth_def ws_close_def on_chat_def on_close_def
        on_timer_def ask_ai_def post_favorites_def saveFavorite_def saveNotification_def Let_def
        forEach_pushTo_frame pushTo_frame dest: saveMessage_other
        split: option.splits sum.splits ai_result.splits)

lemma behind_auth_same:
  assumes "\<And>u. same_vstate (store w) (snd (h u (store w)))"
  shows "same_vstate (store w) (store (behind_auth e ah h w))"
  using behind_auth_store [of e ah h w] assms
  by (auto simp add: same_vstate_refl)

lemma step_same_vstate:
  assumes "distinct (map u_id (users (store w)))"
    and "\<not> (\<exists>uid doc. ev = UploadVerification uid doc)"
    and "\<not> (\<exists>uid action. ev = VerifyAction uid action)"
  shows "same_vstate (store w) (store (step e ev w))"
proof (cases ev)
  case (PostFavorites h pid)
  then show ?thesis
    using authenticateToken_cases [of e h "\<lambda>u. post_favorites u pid" w]
    by (auto simp add: same_vstate_users world_handlers_users)
next
  case (AskAi h i q)
  then show ?thesis
    using authenticateToken_cases [of e h "\<lambda>u. ask_ai e i q" w]
    by (auto simp add: same_vstate_users world_handlers_users)
next
  case TimerFires
  then show ?thesis
    by (auto simp add: same_vstate_users world_handlers_users split: list.splits)
next
  case (DeleteAccount h pw)
  then show ?thesis
    by (simp add: behind_auth_same same_vstate_delete_account [OF assms(1)])
next
  case (UploadVerification uid doc)
  with assms(2) show ?thesis by simp
next
  case (VerifyAction uid action)
  with assms(3) show ?thesis by simp
qed (simp_all add: same_vstate_users world_handlers_users on_store_store same_vstate_signup
       behind_auth_same same_vstate_profile db_handlers_users)

subsection \<open>User ids stay distinct\<close>

lemma map_u_id_update_first:
  "(\<And>x. u_id (f x) = u_id x) \<Longrightarrow> map u_id (update_first P f xs) = map u_id xs"
  by (induction xs) auto

lemma set_delete_first: "set (delete_first P xs) \<subseteq> set xs"
  by (induction xs) auto

lemma distinct_delete_first:
  "distinct (map k xs) \<Longrightarrow> distinct (map k (delete_first P xs))"
proof (induction xs)
  case Nil
  show ?case by simp
next
  case (Cons x xs)
  then show ?case
    using set_delete_first [of P xs] by auto
qed

lemma ids_fresh_keep:
  assumes "ids_fresh d"
    and "map u_id (users d') = map u_id (users d) \<and> next_id d \<le> next_id d'"
  shows "ids_fresh d'"
proof -
  from assms(1) have "\<forall>i \<in> set (map u_id (users d)). i < next_id d"
    by (auto simp add: ids_fresh_def list_all_iff)
  with assms(2) have "\<forall>i \<in> set (map u_id (users d')). i < next_id d'"
    by auto
  then have "list_all (\<lambda>u. u_id u < next_id d') (users d')"
    by (auto simp add: list_all_iff)
  with assms show ?thesis
    by (simp add: ids_fresh_def)
qed

lemma saveMessage_ids:
  "saveMessage c s t d = Inr (m, d1) \<Longrightarrow> users d1 = users d \<and> next_id d \<le> next_id d1"
  by (auto simp add: saveMessage_def Let_def split: option.splits if_splits)

lemma db_handlers_ids:
  "map u_id (users (snd (upload_verification uid doc d))) = map u_id (users d)
     \<and> next_id d \<le> next_id (snd (upload_verification uid doc d))"
  "map u_id (users (snd (verify_action uid action d))) = map u_id (users d)
     \<and> next_id d \<le> next_id (snd (verify_action uid action d))"
  "map u_id (users (snd (post_properties e u b files d))) = map u_id (users d)
     \<and> next_id d \<le> next_id (snd (post_properties e u b files d))"
  "map u_id (users (snd (put_property u i b d))) = map u_id (users d)
     \<and> next_id d \<le> next_id (snd (put_property u i b d))"
  "map u_id (users (snd (delete_property u i d))) = map u_id (users d)
     \<and> next_id d \<le> next_id (snd (delete_property u i d))"
  "map u_id (users (snd (post_view i d))) = map u_id (users d)
     \<and> next_id d \<le> next_id (snd (post_view i d))"
  "map u_id (users (snd (delete_favorite u i d))) = map u_id (users d)
     \<and> next_id d \<le> next_id (snd (delete_favorite u i d))"
  "map u_id (users (snd (post_conversations u pid lid d))) = map u_id (users d)
     \<and> next_id d \<le> next_id (snd (post_conversations u pid lid d))"
  "map u_id (users (snd (post_review u i rt cm d))) = map u_id (users d)
     \<and> next_id d \<le> next_id (snd (post_review u i rt cm d))"
  "map u_id (users (snd (change_password e u cur new d))) = map u_id (users d)
     \<and> next_id d \<le> next_id (snd (change_password e u cur new d))"
  "map u_id (users (snd (update_username e u nn d))) = map u_id (users d)
     \<and> next_id d \<le> next_id (snd (update_username e u nn d))"
  "map u_id (users (snd (upload_picture e u file d))) = map u_id (users d)
     \<and> next_id d \<le> next_id (snd (upload_picture e u file d))"
  "map u_id (users (snd (update_bio u bb d))) = map u_id (users d)
     \<and> next_id d \<le> next_id (snd (update_bio u bb d))"
  "map u_id (users (snd (mark_read u d))) = map u_id (users d)
     \<and> next_id d \<le> next_id (snd (mark_read u d))"
  by (auto simp add: upload_verification_def verify_action_def
        post_properties_def saveProperty_def put_property_def delete_property_def post_view_def
        delete_favorite_def post_conversations_def post_review_def saveReview_def
        change_password_def update_username_def
        upload_picture_def update_bio_def mark_read_def updateUser_def Let_def
        map_u_id_update_first
        split: option.splits sum.splits)

lemma db_handlers_fresh:
  assumes "ids_fresh d"
  shows "ids_fresh (snd (upload_verification uid doc d))"
    and "ids_fresh (snd (verify_action uid action d))"
    and "ids_fresh (snd (post_properties e u b files d))"
    and "ids_fresh (snd (put_property u i b d))"
    and "ids_fresh (snd (delete_property u i d))"
    and "ids_fresh (snd (post_view i d))"
    and "ids_fresh (snd (delete_favorite u i d))"
    and "ids_fresh (snd (post_conversations u pid lid d))"
    and "ids_fresh (snd (post_review u i rt cm d))"
    and "ids_fresh (snd (change_password e u cur new d))"
    and "ids_fresh (snd (update_username e u nn d))"
    and "ids_fresh (snd (upload_picture e u file d))"
    and "ids_fresh (snd (update_bio u bb d))"
    and "ids_fresh (snd (mark_read u d))"
  by (rule ids_fresh_keep [OF assms], rule db_handlers_ids)+

lemma world_handlers_ids:
  "map u_id (users (store (on_message e ws raw w))) = map u_id (users (store w))
     \<and> next_id (store w) \<le> next_id (store (on_message e ws raw w))"
  "map u_id (users (store (on_timer t w))) = map u_id (users (store w))
     \<and> next_id (store w) \<le> next_id (store (on_timer t w))"
  "map u_id (users (store (snd (ask_ai e i q w)))) = map u_id (users (store w))
     \<and> next_id (store w) \<le> next_id (store (snd (ask_ai e i q w)))"
  "map u_id (users (store (snd (post_favorites u pid w)))) = map u_id (users (store w))
     \<and> next_id (store w) \<le> next_id (store (snd (post_favorites u pid w)))"
  by (auto simp add: on_message_def on_auth_def ws_close_def on_chat_def
        on_timer_def ask_ai_def post_favorites_def saveFavorite_def saveNotification_def Let_def
        forEach_pushTo_frame pushTo_frame dest: saveMessage_ids
        split: option.splits sum.splits ai_result.splits)

lemma world_handlers_fresh:
  assumes "ids_fresh (store w)"
  shows "ids_fresh (store (on_message e ws raw w))"
    and "ids_fresh (store (on_timer t w))"
    and "ids_fresh (store (snd (ask_ai e i q w)))"
    and "ids_fresh (store (snd (post_favorites u pid w)))"
  by (rule ids_fresh_keep [OF assms], rule world_handlers_ids)+

lemma signup_fresh: "ids_fresh d \<Longrightarrow> ids_fresh (snd (signup e m pw ut n d))"
  by (auto simp add: signup_def saveUser_def ids_fresh_def list_all_iff Let_def
        split: option.splits)

lemma delete_account_fresh: "ids_fresh d \<Longrightarrow> ids_fresh (snd (delete_account e u pw d))"
proof -
  assume a: "ids_fresh d"
  have "snd (delete_account e u pw d) = d
        \<or> (users (snd (delete_account e u pw d)) = delete_first (\<lambda>x. u_id x = userId u) (users d)
           \<and> next_id (snd (delete_account e u pw d)) = next_id d)"
    by (auto simp add: delete_account_def Let_def split: option.splits)
  then show ?thesis
  proof
    assume "snd (delete_account e u pw d) = d"
    with a show ?thesis by simp
  next
    assume del: "users (snd (delete_account e u pw d)) =
                   delete_first (\<lambda>x. u_id x = userId u) (users d)
                 \<and> next_id (snd (delete_account e u pw d)) = next_id d"
    from a show ?thesis
      using set_delete_first [of "\<lambda>x. u_id x = userId u" "users d"]
      by (auto simp add: ids_fresh_def del distinct_delete_first list_all_iff)
  qed
qed

lemma behind_auth_fresh:
  assumes "ids_fresh (store w)" and "\<And>u. ids_fresh (snd (h u (store w)))"
  shows "ids_fresh (store (behind_auth e ah h w))"
  using behind_auth_store [of e ah h w] assms by auto

lemma step_ids_fresh:
  assumes "ids_fresh (store w)"
  shows "ids_fresh (store (step e ev w))"
proof (cases ev)
  case (PostFavorites h pid)
  then show ?thesis
    using authenticateToken_cases [of e h "\<lambda>u. post_favorites u pid" w]
      world_handlers_fresh(4) [OF assms, of _ pid] assms
    by auto
next
  case (AskAi h i q)
  then show ?thesis
    using authenticateToken_cases [of e h "\<lambda>u. ask_ai e i q" w]
      world_handlers_fresh(3) [OF assms, of e i q] assms
    by auto
next
  case TimerFires
  show ?thesis
  proof (cases "timers w")
    case Nil
    with assms TimerFires show ?thesis by simp
  next
    case (Cons t ts)
    from assms have "ids_fresh (store (w\<lparr>timers := ts\<rparr>))" by simp
    from world_handlers_fresh(2) [OF this, of t] Cons TimerFires show ?thesis by simp
  qed
qed (simp_all add: assms on_store_store on_close_store signup_fresh delete_account_fresh
       behind_auth_fresh db_handlers_fresh world_handlers_fresh)

lemma run_ids_fresh: "ids_fresh (store w) \<Longrightarrow> ids_fresh (store (run e evs w))"
  by (induction evs arbitrary: w) (simp_all add: step_ids_fresh)

lemma reachable_user_ids_distinct:
  "distinct (map u_id (users (store (run e evs (boot empty_db)))))"
proof -
  have "ids_fresh (store (boot empty_db))"
    by (simp add: ids_fresh_def boot_def empty_db_def)
  then have "ids_fresh (store (run e evs (boot empty_db)))"
    by (rule run_ids_fresh)
  then show ?thesis
    by (simp add: ids_fresh_def)
qed

subsection \<open>Who changes the verification state\<close>

text \<open>
  In every state reachable from the empty database, an event that is not a request to
  \<^verbatim>\<open>POST /api/upload-verification\<close> or to \<^verbatim>\<open>POST /api/admin/verify-action\<close>
  leaves the verification status and the verified flag of every user as they are.
\<close>

lemma other_events_keep_verification_state:
  assumes "\<not> (\<exists>uid doc. ev = UploadVerification uid doc)"
    and "\<not> (\<exists>uid action. ev = VerifyAction uid action)"
  shows "same_vstate (store (run e evs (boot empty_db)))
           (store (step e ev (run e evs (boot empty_db))))"
  by (rule step_same_vstate [OF reachable_user_ids_distinct assms])

text \<open>
  The upload route is the user's own way to ask for verification: it sets the status of
  the user named in its body to \<^verbatim>\<open>pending\<close> and leaves the verified flag.
\<close>

lemma upload_sets_pending:
  "map (\<lambda>x. (u_id x, verificationStatus x, isVerified x)) (users (store landlord_world))
     = [(0, ''none'', False)]
   \<and> map (\<lambda>x. (u_id x, verificationStatus x, isVerified x))
        (users (store (step demo_env (UploadVerification (Some 0) (Some ''id.png''))
           landlord_world))) = [(0, ''pending'', False)]"
  by code_simp

text \<open>
  Claim C6, at the failing input. \<^verbatim>\<open>POST /api/admin/verify-action\<close> approves or
  rejects the user named in the body for whoever sends the request: the handler reads
  no header and no token, so the request carries none and what the environment accepts
  as a token plays no part. In every state, the request with the action
  \<^verbatim>\<open>approve\<close> sets the first user with the given id to approved and verified. The
  landlord lou has signed up and is not verified; the request with the body
  \<^verbatim>\<open>{ userId: 0, action: 'approve' }\<close> is answered 200 with her updated document
  and leaves her approved and verified.
\<close>

theorem verify_action_asks_no_credential:
  "users (store (step e (VerifyAction (Some i) (Some ''approve'')) w)) =
     update_first (\<lambda>x. u_id x = i)
       (\<lambda>x. x\<lparr>verificationStatus := ''approved'', isVerified := True\<rparr>) (users (store w))
   \<and> map (\<lambda>x. (u_id x, user_type x, verificationStatus x, isVerified x))
        (users (store landlord_world)) = [(0, ''landlord'', ''none'', False)]
   \<and> fst (verify_action (Some 0) (Some ''approve'') (store landlord_world)) =
        \<lparr>status = 200,
         body = JUser ''User approved successfully!''
                  (Some (lou_user\<lparr>verificationStatus := ''approved'', isVerified := True\<rparr>))\<rparr>
   \<and> map (\<lambda>x. (u_id x, user_type x, verificationStatus x, isVerified x))
        (users (store (step e (VerifyAction (Some 0) (Some ''approve'')) landlord_world)))
       = [(0, ''landlord'', ''approved'', True)]"
proof -
  have general: "users (store (step e (VerifyAction (Some i) (Some ''approve'')) w)) =
     update_first (\<lambda>x. u_id x = i)
       (\<lambda>x. x\<lparr>verificationStatus := ''approved'', isVerified := True\<rparr>) (users (store w))"
    by (simp add: on_store_def verify_action_def matches_def Let_def)
  have before: "map (\<lambda>x. (u_id x, user_type x, verificationStatus x, isVerified x))
        (users (store landlord_world)) = [(0, ''landlord'', ''none'', False)]"
    by code_simp
  have answer: "fst (verify_action (Some 0) (Some ''approve'') (store landlord_world)) =
        \<lparr>status = 200,
         body = JUser ''User approved successfully!''
                  (Some (lou_user\<lparr>verificationStatus := ''approved'', isVerified := True\<rparr>))\<rparr>"
    by code_simp
  have after: "map (\<lambda>x. (u_id x, user_type x, verificationStatus x, isVerified x))
        (users (store (on_store (verify_action (Some 0) (Some ''approve'')) landlord_world)))
       = [(0, ''landlord'', ''approved'', True)]"
    by code_simp
  from general before answer after show ?thesis by simp
qed

section \<open>Listing a property\<close>

lemma user_prop_userType: "user_prop usr ''userType'' = JUndefined"
  by (simp add: user_prop_def)

text \<open>
  Claim C7, at the failing input. The gate of \<^verbatim>\<open>POST /api/properties\<close> compares
  \<^verbatim>\<open>user.userType\<close>, which no user document has (the schema's path is
  \<^verbatim>\<open>user_type\<close>), so the handler never answers 403, whatever the request. The
  landlord lou, who is not verified, posts a listing with her token: the answer is 201
  and the property is stored under her id.
\<close>

theorem unverified_landlord_lists_property:
  "status (fst (post_properties e u b files d)) \<noteq> 403
   \<and> map (\<lambda>x. (user_type x, isVerified x)) (users (store landlord_world)) = [(''landlord'', False)]
   \<and> properties (store landlord_world) = []
   \<and> status (fst (authenticateToken demo_env (Some ''Bearer tokL'')
        (\<lambda>u. post_properties demo_env u flat_body None) (store landlord_world))) = 201
   \<and> map (\<lambda>p. (p_id p, landlord_id p, title p))
        (properties (snd (authenticateToken demo_env (Some ''Bearer tokL'')
           (\<lambda>u. post_properties demo_env u flat_body None) (store landlord_world))))
       = [(1, 0, ''Flat'')]"
proof -
  have gate: "status (fst (post_properties e u b files d)) \<noteq> 403"
    by (simp add: post_properties_def user_prop_userType reply_def
          split: option.splits sum.splits)
  have run: "map (\<lambda>x. (user_type x, isVerified x)) (users (store landlord_world)) = [(''landlord'', False)]
   \<and> properties (store landlord_world) = []
   \<and> status (fst (authenticateToken demo_env (Some ''Bearer tokL'')
        (\<lambda>u. post_properties demo_env u flat_body None) (store landlord_world))) = 201
   \<and> map (\<lambda>p. (p_id p, landlord_id p, title p))
        (properties (snd (authenticateToken demo_env (Some ''Bearer tokL'')
           (\<lambda>u. post_properties demo_env u flat_body None) (store landlord_world))))
       = [(1, 0, ''Flat'')]"
    by code_simp
  from gate run show ?thesis by blast
qed

section \<open>Deleting a landlord account\<close>

lemma filter_not_owned:
  "\<forall>x \<in> set (filter (\<lambda>x. k x \<notin> set (map p_id (filter (\<lambda>p. landlord_id p = i) ps))) xs).
     \<forall>p \<in> set ps. landlord_id p = i \<longrightarrow> k x \<noteq> p_id p"
  by auto

lemma delete_account_success:
  assumes "findUserById (userId u) d = Some usr"
  shows "status (fst (delete_account e u pw d)) = 200
           \<longleftrightarrow> truthy pw \<and> bcrypt_compare e (the pw) (password usr)"
  using assms by (simp add: delete_account_def reply_def Let_def)

lemma delete_account_landlord:
  assumes "findUserById (userId u) d = Some usr" and "userType u = ''landlord''"
    and "status (fst (delete_account e u pw d)) = 200"
  shows "snd (delete_account e u pw d) =
     d\<lparr>properties := filter (\<lambda>p. landlord_id p \<noteq> userId u) (properties d),
       favorites := filter (\<lambda>f. f_property_id f \<notin>
                         set (map p_id (filter (\<lambda>p. landlord_id p = userId u) (properties d))))
             (favorites d),
       conversations := filter (\<lambda>c. c_property_id c \<notin>
                         set (map p_id (filter (\<lambda>p. landlord_id p = userId u) (properties d))))
             (conversations d),
       property_views := filter (\<lambda>v. v_property_id v \<notin>
                         set (map p_id (filter (\<lambda>p. landlord_id p = userId u) (properties d))))
             (property_views d),
       users := delete_first (\<lambda>x. u_id x = userId u) (users d)\<rparr>"
  using assms
  by (simp add: delete_account_def reply_def Let_def split: if_splits)

text \<open>
  Claim C8. The caller's account exists and is a landlord's, and the token carries the
  account's type. The deletion succeeds (status 200) exactly when a non-empty password
  is given and matches the stored hash. When it succeeds, the properties that remain
  are those of other landlords, so every property of the caller is removed; the
  favorites, conversations and views that remain are those that refer to none of the
  caller's properties, so every one that referred to a removed property is removed; and
  the caller's user document is deleted.
\<close>

theorem landlord_deletion_cascades:
  assumes "findUserById (userId u) d = Some usr"
    and "user_type usr = ''landlord''" and "userType u = user_type usr"
  shows "(status (fst (delete_account e u pw d)) = 200
            \<longleftrightarrow> truthy pw \<and> bcrypt_compare e (the pw) (password usr))
       \<and> (status (fst (delete_account e u pw d)) = 200 \<longrightarrow>
            properties (snd (delete_account e u pw d)) =
              filter (\<lambda>p. landlord_id p \<noteq> userId u) (properties d)
          \<and> favorites (snd (delete_account e u pw d)) =
              filter (\<lambda>f. f_property_id f \<notin>
                         set (map p_id (filter (\<lambda>p. landlord_id p = userId u) (properties d))))
                (favorites d)
          \<and> conversations (snd (delete_account e u pw d)) =
              filter (\<lambda>c. c_property_id c \<notin>
                         set (map p_id (filter (\<lambda>p. landlord_id p = userId u) (properties d))))
                (conversations d)
          \<and> property_views (snd (delete_account e u pw d)) =
              filter (\<lambda>v. v_property_id v \<notin>
                         set (map p_id (filter (\<lambda>p. landlord_id p = userId u) (properties d))))
                (property_views d)
          \<and> users (snd (delete_account e u pw d)) =
              delete_first (\<lambda>x. u_id x = userId u) (users d)
          \<and> (\<forall>p \<in> set (properties (snd (delete_account e u pw d))). landlord_id p \<noteq> userId u)
          \<and> (\<forall>f \<in> set (favorites (snd (delete_account e u pw d))).
                \<forall>p \<in> set (properties d). landlord_id p = userId u \<longrightarrow> f_property_id f \<noteq> p_id p)
          \<and> (\<forall>c \<in> set (conversations (snd (delete_account e u pw d))).
                \<forall>p \<in> set (properties d). landlord_id p = userId u \<longrightarrow> c_property_id c \<noteq> p_id p)
          \<and> (\<forall>v \<in> set (property_views (snd (delete_account e u pw d))).
                \<forall>p \<in> set (properties d). landlord_id p = userId u \<longrightarrow> v_property_id v \<noteq> p_id p))"
proof -
  from assms have ll: "userType u = ''landlord''" by simp
  have cascade: "properties (snd (delete_account e u pw d)) =
              filter (\<lambda>p. landlord_id p \<noteq> userId u) (properties d)
          \<and> favorites (snd (delete_account e u pw d)) =
              filter (\<lambda>f. f_property_id f \<notin>
                         set (map p_id (filter (\<lambda>p. landlord_id p = userId u) (properties d))))
                (favorites d)
          \<and> conversations (snd (delete_account e u pw d)) =
              filter (\<lambda>c. c_property_id c \<notin>
                         set (map p_id (filter (\<lambda>p. landlord_id p = userId u) (properties d))))
                (conversations d)
          \<and> property_views (snd (delete_account e u pw d)) =
              filter (\<lambda>v. v_property_id v \<notin>
                         set (map p_id (filter (\<lambda>p. landlord_id p = userId u) (properties d))))
                (property_views d)
          \<and> users (snd (delete_account e u pw d)) =
              delete_first (\<lambda>x. u_id x = userId u) (users d)
          \<and> (\<forall>p \<in> set (properties (snd (delete_account e u pw d))). landlord_id p \<noteq> userId u)
          \<and> (\<forall>f \<in> set (favorites (snd (delete_account e u pw d))).
                \<forall>p \<in> set (properties d). landlord_id p = userId u \<longrightarrow> f_property_id f \<noteq> p_id p)
          \<and> (\<forall>c \<in> set (conversations (snd (delete_account e u pw d))).
                \<forall>p \<in> set (properties d). landlord_id p = userId u \<longrightarrow> c_property_id c \<noteq> p_id p)
          \<and> (\<forall>v \<in> set (property_views (snd (delete_account e u pw d))).
                \<forall>p \<in> set (properties d). landlord_id p = userId u \<longrightarrow> v_property_id v \<noteq> p_id p)"
    if ok: "status (fst (delete_account e u pw d)) = 200"
    unfolding delete_account_landlord [OF assms(1) ll ok]
    using filter_not_owned [of f_property_id "userId u" "properties d" "favorites d"]
      filter_not_owned [of c_property_id "userId u" "properties d" "conversations d"]
      filter_not_owned [of v_property_id "userId u" "properties d" "property_views d"]
    by simp
  from delete_account_success [OF assms(1), of e pw] cascade show ?thesis
    by blast
qed

theorem landlord_deletion_cascades_witness:
  "findUserById (userId bob) cascade_db = Some bob_user
   \<and> user_type bob_user = ''landlord'' \<and> userType bob = user_type bob_user
   \<and> truthy (Some ''pw'') \<and> bcrypt_compare demo_env ''pw'' (password bob_user)
   \<and> status (fst (delete_account demo_env bob (Some ''pw'') cascade_db)) = 200
   \<and> map p_id (properties (snd (delete_account demo_env bob (Some ''pw'') cascade_db))) = [6]
   \<and> map f_id (favorites (snd (delete_account demo_env bob (Some ''pw'') cascade_db))) = [11]
   \<and> conversations (snd (delete_account demo_env bob (Some ''pw'') cascade_db)) = []
   \<and> map v_id (property_views (snd (delete_account demo_env bob (Some ''pw'') cascade_db))) = [14]
   \<and> users (snd (delete_account demo_env bob (Some ''pw'') cascade_db)) = []"
proof -
  have f: "findUserById (userId bob) cascade_db = Some bob_user"
    by (simp add: findUserById_def cascade_db_def bob_def bob_user_def)
  have ut: "user_type bob_user = ''landlord''"
    by (simp add: bob_user_def)
  have ty: "userType bob = user_type bob_user"
    by (simp add: bob_def bob_user_def)
  have pw: "truthy (Some ''pw'')"
    by simp
  have cmp: "bcrypt_compare demo_env ''pw'' (password bob_user)"
    by (simp add: demo_env_def bob_user_def)
  note t = landlord_deletion_cascades [OF f ut ty, of demo_env "Some ''pw''"]
  from t pw cmp have st: "status (fst (delete_account demo_env bob (Some ''pw'') cascade_db)) = 200"
    by simp
  note c = t [THEN conjunct2, THEN mp, OF st]
  note c1 = c [THEN conjunct1]
  note c2 = c [THEN conjunct2, THEN conjunct1]
  note c3 = c [THEN conjunct2, THEN conjunct2, THEN conjunct1]
  note c4 = c [THEN conjunct2, THEN conjunct2, THEN conjunct2, THEN conjunct1]
  note c5 = c [THEN conjunct2, THEN conjunct2, THEN conjunct2, THEN conjunct2, THEN conjunct1]
  have pr: "map p_id (properties (snd (delete_account demo_env bob (Some ''pw'') cascade_db))) = [6]"
    unfolding c1 by (simp add: cascade_db_def demo_property_def bob_def)
  have fv: "map f_id (favorites (snd (delete_account demo_env bob (Some ''pw'') cascade_db))) = [11]"
    unfolding c2 by (simp add: cascade_db_def demo_property_def bob_def)
  have cv: "conversations (snd (delete_account demo_env bob (Some ''pw'') cascade_db)) = []"
    unfolding c3 by (simp add: cascade_db_def demo_property_def bob_def)
  have vw: "map v_id (property_views (snd (delete_account demo_env bob (Some ''pw'') cascade_db))) = [14]"
    unfolding c4 by (simp add: cascade_db_def demo_property_def bob_def)
  have us: "users (snd (delete_account demo_env bob (Some ''pw'') cascade_db)) = []"
    unfolding c5 by (simp add: cascade_db_def bob_user_def bob_def)
  from f ut ty pw cmp st pr fv cv vw us show ?thesis
    by blast
qed

section \<open>The application routes\<close>

text \<open>
  Without the four application routes the module loads, the server listens and the 33
  other routes are registered.
\<close>

lemma module_without_application_routes_loads:
  "(case load (declarations @ rest_routes @ [Listen [''server'', ''PORT'']]) node_start of
      Inl err \<Rightarrow> False
    | Inr s \<Rightarrow> listening s \<and> length (routes s) = 33)"
  by code_simp

text \<open>
  Claim C9. Loading \<^verbatim>\<open>server.js\<close> stops with the ReferenceError for
  \<^verbatim>\<open>requireAuth\<close>: the name is bound neither by the module nor by Node, each of the
  four registrations of an application route throws even in a scope holding every name
  the module binds, and since the load never reaches \<^verbatim>\<open>server.listen\<close>, none of
  the four routes is ever served.
\<close>

theorem application_routes_never_registered:
  "load server_js node_start = Inl (ReferenceError ''requireAuth'')
   \<and> ''requireAuth'' \<notin> set (bound_names server_js) \<union> set node_globals
   \<and> list_all (\<lambda>st. exec st \<lparr>scope = bound_names server_js @ node_globals, routes = [],
                              listening = False\<rparr> = Inl (ReferenceError ''requireAuth''))
        application_routes
   \<and> \<not> serves server_js ''post'' ''/api/applications''
   \<and> \<not> serves server_js ''get'' ''/api/applications/student''
   \<and> \<not> serves server_js ''get'' ''/api/applications/landlord''
   \<and> \<not> serves server_js ''post'' ''/api/applications/:id/status''"
proof -
  have l: "load server_js node_start = Inl (ReferenceError ''requireAuth'')"
    by code_simp
  have n: "''requireAuth'' \<notin> set (bound_names server_js) \<union> set node_globals"
    by code_simp
  have a: "list_all (\<lambda>st. exec st \<lparr>scope = bound_names server_js @ node_globals, routes = [],
                              listening = False\<rparr> = Inl (ReferenceError ''requireAuth''))
        application_routes"
    by code_simp
  from l n a show ?thesis
    by (simp add: serves_def)
qed

end
